theory Spec2Isabelle
  imports Complex_Main
begin

section \<open>Inventory backend: operation lifecycle and stock mutation\<close>

text \<open>
  A shallow embedding of the receipt and delivery endpoints of \<^verbatim>\<open>src/main.py\<close>
  over the document models of \<^verbatim>\<open>src/schemas.py\<close>.

  The document store is MongoDB reached through pymongo. A collection is modelled as the
  list of its documents in natural (insertion) order. Every document of a collection is
  written through the pydantic model of that collection (\<^verbatim>\<open>model_dump()\<close>), so it carries
  every field of its model; documents are therefore records, and the defaults of
  \<^verbatim>\<open>rec.get("status", "Draft")\<close>, \<^verbatim>\<open>rec.get("lines", [])\<close> and
  \<^verbatim>\<open>prod.get("free_to_use", 0)\<close> are never taken. Python integers are unbounded and
  modelled as \<^typ>\<open>int\<close>; the 64-bit limit of the store's integers is not modelled.
\<close>

subsection \<open>Documents (schemas.py)\<close>

text \<open>A point in time, as returned by \<^verbatim>\<open>datetime.utcnow()\<close>.\<close>

type_synonym datetime = nat

text \<open>\<^verbatim>\<open>class Move\<close>: \<^verbatim>\<open>direction\<close> is \<^verbatim>\<open>'in'\<close> or \<^verbatim>\<open>'out'\<close>.\<close>

record Move =
  reference :: string
  date :: datetime
  contact :: "string option"
  from_location :: "string option"
  to_location :: "string option"
  product_sku :: string
  quantity :: int
  direction :: string
  status :: string

text \<open>\<^verbatim>\<open>class ReceiptLine\<close> and \<^verbatim>\<open>class DeliveryLine\<close> have the same two fields;
  \<^verbatim>\<open>quantity\<close> is declared \<^verbatim>\<open>Field(ge=0)\<close>, which the models check on construction.\<close>

record ReceiptLine =
  product_sku :: string
  quantity :: int

type_synonym DeliveryLine = ReceiptLine

text \<open>The request bodies of main.py: \<^verbatim>\<open>class ReceiptCreate\<close>, \<^verbatim>\<open>class DeliveryCreate\<close>,
  \<^verbatim>\<open>class StatusPayload\<close>. The lines of a creation request are taken as already
  holding a sku and an integer quantity.\<close>

record ReceiptCreate =
  from_location :: "string option"
  to_location :: "string option"
  contact :: "string option"
  schedule_date :: "datetime option"
  lines :: "ReceiptLine list"

record DeliveryCreate =
  to_location :: "string option"
  contact :: "string option"
  schedule_date :: "datetime option"
  lines :: "DeliveryLine list"

record StatusPayload =
  action :: string

text \<open>\<^verbatim>\<open>class Product\<close>; \<^verbatim>\<open>cost\<close> is a float that the lifecycle engine never reads.\<close>

record Product =
  sku :: string
  name :: string
  cost :: real
  on_hand :: int
  free_to_use :: int

text \<open>
  \<^verbatim>\<open>class Receipt\<close>, and \<^verbatim>\<open>class Delivery\<close>, which has the fields of a receipt and
  \<^verbatim>\<open>operation_type\<close>. The status is the string the code compares against:
  \<^verbatim>\<open>'Draft'\<close>, \<^verbatim>\<open>'Waiting'\<close> (deliveries only), \<^verbatim>\<open>'Ready'\<close>, \<^verbatim>\<open>'Done'\<close>,
  \<^verbatim>\<open>'Canceled'\<close>.
\<close>

record Receipt =
  reference :: string
  from_location :: "string option"
  to_location :: "string option"
  contact :: "string option"
  schedule_date :: "datetime option"
  status :: string
  responsible :: "string option"
  lines :: "ReceiptLine list"

record Delivery = Receipt +
  operation_type :: string

subsection \<open>The store (pymongo)\<close>

text \<open>The four collections the engine touches: \<^verbatim>\<open>db["product"]\<close>, \<^verbatim>\<open>db["receipt"]\<close>,
  \<^verbatim>\<open>db["delivery"]\<close>, \<^verbatim>\<open>db["move"]\<close>.\<close>

record store =
  product :: "Product list"
  receipt :: "Receipt list"
  delivery :: "Delivery list"
  move :: "Move list"

text \<open>\<^verbatim>\<open>collection.find_one(filter)\<close>: the first document that matches, or \<^verbatim>\<open>None\<close>.\<close>

fun find_one :: "('a \<Rightarrow> bool) \<Rightarrow> 'a list \<Rightarrow> 'a option" where
  "find_one flt [] = None"
| "find_one flt (d # ds) = (if flt d then Some d else find_one flt ds)"

text \<open>\<^verbatim>\<open>collection.update_one(filter, update)\<close>: the update is applied to the first
  document that matches; without a match nothing changes and nothing is raised.\<close>

fun update_one :: "('a \<Rightarrow> bool) \<Rightarrow> ('a \<Rightarrow> 'a) \<Rightarrow> 'a list \<Rightarrow> 'a list" where
  "update_one flt upd [] = []"
| "update_one flt upd (d # ds) = (if flt d then upd d # ds else d # update_one flt upd ds)"

text \<open>\<^verbatim>\<open>collection.count_documents({})\<close>.\<close>

definition count_documents :: "'a list \<Rightarrow> nat" where
  "count_documents ds = length ds"

text \<open>
  Modelled from the spec: \<^verbatim>\<open>create_document\<close> of \<^verbatim>\<open>database.py\<close>, which is not among the
  sources. The spec describes the store as supporting insert, and the ledger's
  \<^verbatim>\<open>append\<close> as insert-only with listing in creation order: the document is added at the
  end of its collection.\<close>

definition create_document :: "'a list \<Rightarrow> 'a \<Rightarrow> 'a list" where
  "create_document ds d = ds @ [d]"

text \<open>The update \<^verbatim>\<open>{"$inc": {"on_hand": a, "free_to_use": b}}\<close>.\<close>

definition inc :: "int \<Rightarrow> int \<Rightarrow> Product \<Rightarrow> Product" where
  "inc a b p = p\<lparr>on_hand := on_hand p + a, free_to_use := free_to_use p + b\<rparr>"

text \<open>The update \<^verbatim>\<open>{"$set": {"status": s}}\<close>.\<close>

definition set_status :: "string \<Rightarrow> 'a Receipt_scheme \<Rightarrow> 'a Receipt_scheme" where
  "set_status s r = r\<lparr>status := s\<rparr>"

subsection \<open>Errors\<close>

text \<open>
  \<^verbatim>\<open>HTTPException(status_code, detail)\<close> as raised by the endpoints;
  \<^verbatim>\<open>TypeError\<close> for subscripting \<^verbatim>\<open>db\<close> when it is \<^verbatim>\<open>None\<close>;
  \<^verbatim>\<open>ValidationError\<close> for a pydantic model refusing its arguments.\<close>

datatype error = HTTPException nat string | TypeError | ValidationError

subsection \<open>References\<close>

text \<open>The format specification \<^verbatim>\<open>{count:04d}\<close> on a non-negative integer: the decimal
  digits, padded on the left with zeros to a width of four.\<close>

definition digit_char :: "nat \<Rightarrow> char" where
  "digit_char d = ''0123456789'' ! d"

function decimal :: "nat \<Rightarrow> string" where
  "decimal n = (if n < 10 then [digit_char n] else decimal (n div 10) @ [digit_char (n mod 10)])"
  by pat_completeness auto
termination
  by (relation "measure (\<lambda>n. n)") auto

declare decimal.simps [simp del]

definition format_04d :: "nat \<Rightarrow> string" where
  "format_04d n = replicate (4 - length (decimal n)) CHR ''0'' @ decimal n"

text \<open>Reading a decimal numeral back, to state what the format means.\<close>

definition digit_value :: "char \<Rightarrow> nat" where
  "digit_value c = of_char c - 48"

definition decimal_value :: "string \<Rightarrow> nat" where
  "decimal_value s = foldl (\<lambda>a c. 10 * a + digit_value c) 0 s"

definition is_digit :: "char \<Rightarrow> bool" where
  "is_digit c = (c \<in> set ''0123456789'')"

subsection \<open>Creating operations\<close>

text \<open>\<^verbatim>\<open>x or default\<close> on an optional string: \<^verbatim>\<open>None\<close> and the empty string are falsy.\<close>

definition str_or :: "string option \<Rightarrow> string \<Rightarrow> string" where
  "str_or x d = (case x of None \<Rightarrow> d | Some s \<Rightarrow> (if s = [] then d else s))"

text \<open>\<^verbatim>\<open>payload.schedule_date or datetime.utcnow()\<close>: a datetime is always truthy.\<close>

definition date_or :: "datetime option \<Rightarrow> datetime \<Rightarrow> datetime" where
  "date_or x d = (case x of None \<Rightarrow> d | Some t \<Rightarrow> t)"

text \<open>The check of \<^verbatim>\<open>quantity: int = Field(ge=0)\<close> on every line of a new operation.\<close>

definition lines_valid :: "ReceiptLine list \<Rightarrow> bool" where
  "lines_valid ls = list_all (\<lambda>l. 0 \<le> quantity l) ls"

text \<open>\<^verbatim>\<open>create_receipt\<close> (main.py 157-164); \<open>now\<close> is the reading of the clock.\<close>

definition create_receipt :: "store option \<Rightarrow> ReceiptCreate \<Rightarrow> datetime \<Rightarrow> error + (Receipt \<times> store)" where
  "create_receipt db payload now =
     (case db of
        None \<Rightarrow> Inl (HTTPException 500 ''DB not available'')
      | Some st \<Rightarrow>
          (let count = count_documents (receipt st) + 1;
               ref = ''WH/IN/'' @ format_04d count
           in if \<not> lines_valid (ReceiptCreate.lines payload) then Inl ValidationError
              else
                (let rec = \<lparr>reference = ref,
                            from_location = ReceiptCreate.from_location payload,
                            to_location = Some (str_or (ReceiptCreate.to_location payload) ''STOCK''),
                            contact = ReceiptCreate.contact payload,
                            schedule_date = Some (date_or (ReceiptCreate.schedule_date payload) now),
                            status = ''Draft'',
                            responsible = Some ''admin'',
                            lines = ReceiptCreate.lines payload\<rparr>
                 in Inr (rec, st\<lparr>receipt := create_document (receipt st) rec\<rparr>))))"

text \<open>\<^verbatim>\<open>create_delivery\<close> (main.py 207-214).\<close>

definition create_delivery :: "store option \<Rightarrow> DeliveryCreate \<Rightarrow> datetime \<Rightarrow> error + (Delivery \<times> store)" where
  "create_delivery db payload now =
     (case db of
        None \<Rightarrow> Inl (HTTPException 500 ''DB not available'')
      | Some st \<Rightarrow>
          (let count = count_documents (delivery st) + 1;
               ref = ''WH/OUT/'' @ format_04d count
           in if \<not> lines_valid (DeliveryCreate.lines payload) then Inl ValidationError
              else
                (let doc = \<lparr>reference = ref,
                            from_location = Some ''STOCK'',
                            to_location = Some (str_or (DeliveryCreate.to_location payload) ''CUSTOMER''),
                            contact = DeliveryCreate.contact payload,
                            schedule_date = Some (date_or (DeliveryCreate.schedule_date payload) now),
                            status = ''Draft'',
                            responsible = Some ''admin'',
                            lines = DeliveryCreate.lines payload,
                            operation_type = ''Customer Delivery''\<rparr>
                 in Inr (doc, st\<lparr>delivery := create_document (delivery st) doc\<rparr>))))"

subsection \<open>Actions\<close>

text \<open>
  The first loop of a \<^verbatim>\<open>validate\<close> branch (main.py 185-186 and 238-239): one
  \<^verbatim>\<open>update_one({"sku": line["product_sku"]}, {"$inc": ...})\<close> per line, in order.
  \<open>delta\<close> is the amount added for a line's quantity: the quantity itself for a receipt,
  its negation for a delivery.\<close>

fun apply_stock :: "(int \<Rightarrow> int) \<Rightarrow> Product list \<Rightarrow> ReceiptLine list \<Rightarrow> Product list" where
  "apply_stock delta ps [] = ps"
| "apply_stock delta ps (l # ls) =
     apply_stock delta
       (update_one (\<lambda>p. sku p = product_sku l) (inc (delta (quantity l)) (delta (quantity l))) ps) ls"

text \<open>
  The \<^verbatim>\<open>Move(...)\<close> built for one line (main.py 189 and 242): \<open>dir\<close> is \<^verbatim>\<open>'in'\<close> or
  \<^verbatim>\<open>'out'\<close>, \<open>t\<close> the reading of the clock.\<close>

definition make_move :: "string \<Rightarrow> string \<Rightarrow> 'a Receipt_scheme \<Rightarrow> datetime \<Rightarrow> ReceiptLine \<Rightarrow> Move" where
  "make_move dir ref rec t l =
     \<lparr>Move.reference = ref, date = t, contact = contact rec,
      from_location = from_location rec, to_location = to_location rec,
      product_sku = product_sku l, quantity = quantity l,
      direction = dir, status = ''Done''\<rparr>"

text \<open>
  The second loop (main.py 188-190 and 241-243): one \<^verbatim>\<open>Move\<close> per line, in order, each
  handed to \<^verbatim>\<open>create_document("move", ...)\<close>. The clock is read once per line,
  \<open>now k\<close> being its \<open>k\<close>-th reading.\<close>

fun log_moves :: "string \<Rightarrow> string \<Rightarrow> 'a Receipt_scheme \<Rightarrow> (nat \<Rightarrow> datetime) \<Rightarrow> nat \<Rightarrow>
    Move list \<Rightarrow> ReceiptLine list \<Rightarrow> Move list" where
  "log_moves dir ref rec now k ms [] = ms"
| "log_moves dir ref rec now k ms (l # ls) =
     log_moves dir ref rec now (Suc k) (create_document ms (make_move dir ref rec (now k) l)) ls"

text \<open>\<^verbatim>\<open>receipt_action\<close> (main.py 175-194). The result is the response
  \<^verbatim>\<open>{"reference": ..., "status": ...}\<close> as a pair, and the store afterwards.\<close>

definition receipt_action ::
    "store option \<Rightarrow> string \<Rightarrow> StatusPayload \<Rightarrow> (nat \<Rightarrow> datetime) \<Rightarrow> error + ((string \<times> string) \<times> store)" where
  "receipt_action db ref payload now =
     (case db of
        None \<Rightarrow> Inl TypeError
      | Some st \<Rightarrow>
          (case find_one (\<lambda>r. reference r = ref) (receipt st) of
             None \<Rightarrow> Inl (HTTPException 404 ''Not found'')
           | Some rec \<Rightarrow>
               (let (s, st1) =
                     (if action payload = ''todo'' \<and> status rec = ''Draft'' then (''Ready'', st)
                      else if action payload = ''validate'' \<and> status rec = ''Ready'' then
                        (''Done'',
                         st\<lparr>product := apply_stock (\<lambda>q. q) (product st) (lines rec),
                            move := log_moves ''in'' ref rec now 0 (move st) (lines rec)\<rparr>)
                      else if action payload = ''cancel'' then (''Canceled'', st)
                      else (status rec, st))
                in Inr ((ref, s),
                        st1\<lparr>receipt :=
                              update_one (\<lambda>r. reference r = ref) (set_status s) (receipt st1)\<rparr>))))"

text \<open>The stock check of a delivery's \<^verbatim>\<open>todo\<close> (main.py 229-233): the lines whose product
  is missing or has less \<^verbatim>\<open>free_to_use\<close> than the line asks for.\<close>

fun insufficient :: "Product list \<Rightarrow> DeliveryLine list \<Rightarrow> DeliveryLine list" where
  "insufficient ps [] = []"
| "insufficient ps (l # ls) =
     (case find_one (\<lambda>p. sku p = product_sku l) ps of
        None \<Rightarrow> l # insufficient ps ls
      | Some p \<Rightarrow>
          (if free_to_use p < quantity l then l # insufficient ps ls else insufficient ps ls))"

text \<open>\<^verbatim>\<open>delivery_action\<close> (main.py 222-247).\<close>

definition delivery_action ::
    "store option \<Rightarrow> string \<Rightarrow> StatusPayload \<Rightarrow> (nat \<Rightarrow> datetime) \<Rightarrow> error + ((string \<times> string) \<times> store)" where
  "delivery_action db ref payload now =
     (case db of
        None \<Rightarrow> Inl TypeError
      | Some st \<Rightarrow>
          (case find_one (\<lambda>r. reference r = ref) (delivery st) of
             None \<Rightarrow> Inl (HTTPException 404 ''Not found'')
           | Some rec \<Rightarrow>
               (let (s, st1) =
                     (if action payload = ''todo'' \<and> status rec = ''Draft'' then
                        (if insufficient (product st) (lines rec) \<noteq> [] then ''Waiting'' else ''Ready'', st)
                      else if action payload = ''validate'' \<and> status rec = ''Ready'' then
                        (''Done'',
                         st\<lparr>product := apply_stock (\<lambda>q. - q) (product st) (lines rec),
                            move := log_moves ''out'' ref rec now 0 (move st) (lines rec)\<rparr>)
                      else if action payload = ''cancel'' then (''Canceled'', st)
                      else (status rec, st))
                in Inr ((ref, s),
                        st1\<lparr>delivery :=
                              update_one (\<lambda>r. reference r = ref) (set_status s) (delivery st1)\<rparr>))))"

subsection \<open>Vocabulary of the properties\<close>

text \<open>The total quantity that the lines \<open>ls\<close> ask for the sku \<open>s\<close>.\<close>

definition line_total :: "string \<Rightarrow> ReceiptLine list \<Rightarrow> int" where
  "line_total s ls = sum_list (map quantity (filter (\<lambda>l. product_sku l = s) ls))"

text \<open>A line is covered when its product exists and has at least the line's quantity
  free to use.\<close>

definition covered :: "Product list \<Rightarrow> DeliveryLine \<Rightarrow> bool" where
  "covered ps l =
     (case find_one (\<lambda>p. sku p = product_sku l) ps of
        None \<Rightarrow> False
      | Some p \<Rightarrow> quantity l \<le> free_to_use p)"

text \<open>The stock update for a quantity \<open>q\<close>, written out on the two fields.\<close>

definition add_stock :: "int \<Rightarrow> Product \<Rightarrow> Product" where
  "add_stock q p = p\<lparr>on_hand := on_hand p + q, free_to_use := free_to_use p + q\<rparr>"

text \<open>A line has a product when a product document carries the line's sku.\<close>

definition has_product :: "Product list \<Rightarrow> ReceiptLine \<Rightarrow> bool" where
  "has_product ps l = (find_one (\<lambda>p. sku p = product_sku l) ps \<noteq> None)"

subsection \<open>Example data\<close>

text \<open>The documents that \<^verbatim>\<open>seed\<close> (main.py 54-61) writes into an empty database.\<close>

definition desk :: Product where
  "desk = \<lparr>sku = ''DESK001'', name = ''Desk'', cost = 3000, on_hand = 50, free_to_use = 45\<rparr>"

definition table :: Product where
  "table = \<lparr>sku = ''TABLE001'', name = ''Table'', cost = 3000, on_hand = 50, free_to_use = 50\<rparr>"

definition seed_receipt :: Receipt where
  "seed_receipt =
     \<lparr>reference = ''WH/IN/0001'', from_location = Some ''SUPPLIER'', to_location = Some ''STOCK'',
      contact = Some ''Acme'', schedule_date = Some 0, status = ''Ready'',
      responsible = Some ''admin'',
      lines = [\<lparr>product_sku = ''DESK001'', quantity = 5\<rparr>]\<rparr>"

definition seed_delivery :: Delivery where
  "seed_delivery =
     \<lparr>reference = ''WH/OUT/0001'', from_location = Some ''STOCK'', to_location = Some ''CUSTOMER'',
      contact = Some ''John'', schedule_date = Some 0, status = ''Waiting'',
      responsible = Some ''admin'',
      lines = [\<lparr>product_sku = ''DESK001'', quantity = 6\<rparr>],
      operation_type = ''Customer Delivery''\<rparr>"

definition seed_store :: store where
  "seed_store =
     \<lparr>product = [desk, table], receipt = [seed_receipt], delivery = [seed_delivery], move = []\<rparr>"

text \<open>Two creation requests and a store without documents.\<close>

definition receipt_request :: ReceiptCreate where
  "receipt_request =
     \<lparr>ReceiptCreate.from_location = None, to_location = None, contact = Some ''Acme'',
      schedule_date = None, lines = [\<lparr>product_sku = ''DESK001'', quantity = 5\<rparr>]\<rparr>"

definition delivery_request :: DeliveryCreate where
  "delivery_request =
     \<lparr>DeliveryCreate.to_location = None, contact = Some ''John'',
      schedule_date = None, lines = [\<lparr>product_sku = ''DESK001'', quantity = 6\<rparr>]\<rparr>"

definition empty_store :: store where
  "empty_store = \<lparr>product = [], receipt = [], delivery = [], move = []\<rparr>"

text \<open>A clock whose \<open>k\<close>-th reading is \<open>k\<close>.\<close>

definition tick :: "nat \<Rightarrow> datetime" where
  "tick k = k"

text \<open>A line for a sku that has no product document.\<close>

definition ghost_line :: ReceiptLine where
  "ghost_line = \<lparr>product_sku = ''GHOST'', quantity = 3\<rparr>"

section \<open>Properties\<close>

subsection \<open>The store operations\<close>

lemma find_one_None_iff: "find_one flt ds = None \<longleftrightarrow> (\<forall>d\<in>set ds. \<not> flt d)"
  by (induction ds) auto

lemma update_one_no_match: "find_one flt ds = None \<Longrightarrow> update_one flt upd ds = ds"
  by (induction ds) (auto split: if_splits)

lemma update_one_fixed: "find_one flt ds = Some d \<Longrightarrow> upd d = d \<Longrightarrow> update_one flt upd ds = ds"
  by (induction ds) (auto split: if_splits)

lemma map_update_one_inv: "(\<And>d. g (upd d) = g d) \<Longrightarrow> map g (update_one flt upd ds) = map g ds"
  by (induction ds) auto

lemma find_one_update_one:
  "(\<And>d. flt d \<Longrightarrow> flt (upd d)) \<Longrightarrow>
   find_one flt (update_one flt upd ds) = map_option upd (find_one flt ds)"
  by (induction ds) auto

lemma find_one_set_status:
  "find_one (\<lambda>r. reference r = ref) ds = Some rec \<Longrightarrow>
   find_one (\<lambda>r. reference r = ref) (update_one (\<lambda>r. reference r = ref) (set_status s) ds)
     = Some (rec\<lparr>status := s\<rparr>)"
  by (simp add: find_one_update_one set_status_def)

lemma set_status_same: "set_status (status r) r = r"
  by (simp add: set_status_def)

lemma sku_inc: "sku (inc a b p) = sku p"
  by (simp add: inc_def)

lemma inc_inc: "inc a b (inc c d p) = inc (c + a) (d + b) p"
  by (simp add: inc_def)

lemma inc_zero: "inc 0 0 p = p"
  by (simp add: inc_def)

lemma inc_add_stock: "inc q q = add_stock q"
  by (rule ext) (simp add: inc_def add_stock_def)

lemma find_one_sku_inc:
  "find_one (\<lambda>p. sku p = s) (update_one (\<lambda>p. sku p = s') (inc a b) ps) =
     (if s = s' then map_option (inc a b) (find_one (\<lambda>p. sku p = s) ps)
      else find_one (\<lambda>p. sku p = s) ps)"
  by (induction ps) (auto simp: sku_inc)

lemma find_one_apply_stock:
  "find_one (\<lambda>p. sku p = s) (apply_stock delta ps ls) =
     map_option (inc (sum_list (map (\<lambda>l. delta (quantity l)) (filter (\<lambda>l. product_sku l = s) ls)))
                     (sum_list (map (\<lambda>l. delta (quantity l)) (filter (\<lambda>l. product_sku l = s) ls))))
       (find_one (\<lambda>p. sku p = s) ps)"
proof (induction ls arbitrary: ps)
  case Nil
  show ?case by (simp add: inc_zero option.map_ident cong: option.map_cong)
next
  case (Cons l ls)
  show ?case
    by (simp add: Cons.IH find_one_sku_inc option.map_comp comp_def inc_inc)
qed

lemma find_one_stock_in:
  "find_one (\<lambda>p. sku p = s) (apply_stock (\<lambda>q. q) ps ls) =
     map_option (add_stock (line_total s ls)) (find_one (\<lambda>p. sku p = s) ps)"
  by (simp add: find_one_apply_stock line_total_def inc_add_stock)

lemma sum_list_uminus: "sum_list (map (\<lambda>l. - f l) xs) = - sum_list (map f xs)" for f :: "'a \<Rightarrow> int"
  by (induction xs) simp_all

lemma find_one_stock_out:
  "find_one (\<lambda>p. sku p = s) (apply_stock (\<lambda>q. - q) ps ls) =
     map_option (add_stock (- line_total s ls)) (find_one (\<lambda>p. sku p = s) ps)"
  by (simp add: find_one_apply_stock line_total_def inc_add_stock sum_list_uminus)

lemma map_sku_apply_stock: "map sku (apply_stock delta ps ls) = map sku ps"
  by (induction ls arbitrary: ps) (simp_all add: map_update_one_inv sku_inc)

lemma log_moves_eq:
  "log_moves dir ref rec now k ms ls =
     ms @ map (\<lambda>(i, l). make_move dir ref rec (now i) l) (enumerate k ls)"
  by (induction ls arbitrary: k ms) (simp_all add: create_document_def)

lemma new_moves_direction:
  "map Move.direction (map (\<lambda>(i, l). make_move dir ref rec (now i) l) (enumerate k ls))
     = replicate (length ls) dir"
  by (induction ls arbitrary: k) (simp_all add: make_move_def)

lemma new_moves_sku:
  "map Move.product_sku (map (\<lambda>(i, l). make_move dir ref rec (now i) l) (enumerate k ls))
     = map product_sku ls"
  by (induction ls arbitrary: k) (simp_all add: make_move_def)

lemma new_moves_quantity:
  "map Move.quantity (map (\<lambda>(i, l). make_move dir ref rec (now i) l) (enumerate k ls))
     = map quantity ls"
  by (induction ls arbitrary: k) (simp_all add: make_move_def)

lemma receipt_action_validate:
  assumes "find_one (\<lambda>r. reference r = ref) (receipt st) = Some rec"
    and "status rec = ''Ready''" and "action payload = ''validate''"
  shows "receipt_action (Some st) ref payload now =
     Inr ((ref, ''Done''),
          st\<lparr>product := apply_stock (\<lambda>q. q) (product st) (lines rec),
             move := log_moves ''in'' ref rec now 0 (move st) (lines rec),
             receipt := update_one (\<lambda>r. reference r = ref) (set_status ''Done'') (receipt st)\<rparr>)"
  using assms by (simp add: receipt_action_def)

subsection \<open>Validating a receipt\<close>

text \<open>
  Claim C1. For a receipt whose status is \<^verbatim>\<open>Ready\<close>, the action \<^verbatim>\<open>validate\<close> answers with
  status \<^verbatim>\<open>Done\<close> and stores it; for every sku, the product found under that sku has
  \<^verbatim>\<open>on_hand\<close> and \<^verbatim>\<open>free_to_use\<close> raised by the quantities of the receipt's lines for
  that sku (each line adds its own quantity), no product changes its sku; the move
  collection gains exactly one move per line, in line order, each with direction
  \<^verbatim>\<open>in\<close> and the line's sku and quantity; deliveries are untouched.
\<close>

theorem receipt_validate_ready:
  assumes found: "find_one (\<lambda>r. reference r = ref) (receipt st) = Some rec"
    and ready: "status rec = ''Ready''"
    and act: "action payload = ''validate''"
  shows "\<exists>st'. receipt_action (Some st) ref payload now = Inr ((ref, ''Done''), st')
     \<and> find_one (\<lambda>r. reference r = ref) (receipt st') = Some (rec\<lparr>status := ''Done''\<rparr>)
     \<and> (\<forall>s. find_one (\<lambda>p. sku p = s) (product st') =
            map_option (add_stock (line_total s (lines rec))) (find_one (\<lambda>p. sku p = s) (product st)))
     \<and> map sku (product st') = map sku (product st)
     \<and> move st' = move st @ map (\<lambda>(i, l). make_move ''in'' ref rec (now i) l) (enumerate 0 (lines rec))
     \<and> length (move st') = length (move st) + length (lines rec)
     \<and> map Move.direction (drop (length (move st)) (move st')) = replicate (length (lines rec)) ''in''
     \<and> map Move.product_sku (drop (length (move st)) (move st')) = map product_sku (lines rec)
     \<and> map Move.quantity (drop (length (move st)) (move st')) = map quantity (lines rec)
     \<and> delivery st' = delivery st"
proof -
  let ?st' = "st\<lparr>product := apply_stock (\<lambda>q. q) (product st) (lines rec),
             move := log_moves ''in'' ref rec now 0 (move st) (lines rec),
             receipt := update_one (\<lambda>r. reference r = ref) (set_status ''Done'') (receipt st)\<rparr>"
  have run: "receipt_action (Some st) ref payload now = Inr ((ref, ''Done''), ?st')"
    by (rule receipt_action_validate [OF found ready act])
  have st: "find_one (\<lambda>r. reference r = ref) (receipt ?st') = Some (rec\<lparr>status := ''Done''\<rparr>)"
    by (simp add: find_one_set_status [OF found])
  have stock: "\<forall>s. find_one (\<lambda>p. sku p = s) (product ?st') =
            map_option (add_stock (line_total s (lines rec))) (find_one (\<lambda>p. sku p = s) (product st))"
    by (simp add: find_one_stock_in)
  have skus: "map sku (product ?st') = map sku (product st)"
    by (simp add: map_sku_apply_stock)
  have mv: "move ?st' = move st @ map (\<lambda>(i, l). make_move ''in'' ref rec (now i) l) (enumerate 0 (lines rec))"
    by (simp add: log_moves_eq)
  have len: "length (move ?st') = length (move st) + length (lines rec)"
    by (simp add: mv)
  have dir: "map Move.direction (drop (length (move st)) (move ?st')) = replicate (length (lines rec)) ''in''"
    unfolding mv by (simp only: drop_append drop_all order_refl diff_self_eq_0 drop_0 append_Nil new_moves_direction)
  have sk: "map Move.product_sku (drop (length (move st)) (move ?st')) = map product_sku (lines rec)"
    unfolding mv by (simp only: drop_append drop_all order_refl diff_self_eq_0 drop_0 append_Nil new_moves_sku)
  have qt: "map Move.quantity (drop (length (move st)) (move ?st')) = map quantity (lines rec)"
    unfolding mv by (simp only: drop_append drop_all order_refl diff_self_eq_0 drop_0 append_Nil new_moves_quantity)
  have dl: "delivery ?st' = delivery st" by simp
  from run st stock skus mv len dir sk qt dl show ?thesis by blast
qed

theorem receipt_validate_ready_witness:
  "find_one (\<lambda>r. reference r = ''WH/IN/0001'') (receipt seed_store) = Some seed_receipt
   \<and> status seed_receipt = ''Ready''
   \<and> (\<exists>st'. receipt_action (Some seed_store) ''WH/IN/0001'' \<lparr>action = ''validate''\<rparr> tick
              = Inr ((''WH/IN/0001'', ''Done''), st')
        \<and> find_one (\<lambda>p. sku p = ''DESK001'') (product st')
            = Some (desk\<lparr>on_hand := 55, free_to_use := 50\<rparr>)
        \<and> map Move.direction (move st') = [''in''])"
proof -
  have h1: "find_one (\<lambda>r. reference r = ''WH/IN/0001'') (receipt seed_store) = Some seed_receipt"
    by (simp add: seed_store_def seed_receipt_def)
  have h2: "status seed_receipt = ''Ready''"
    by (simp add: seed_receipt_def)
  have h3: "action \<lparr>action = ''validate''\<rparr> = ''validate''" by simp
  from receipt_validate_ready [OF h1 h2 h3, of tick]
  obtain st' where
    r: "receipt_action (Some seed_store) ''WH/IN/0001'' \<lparr>action = ''validate''\<rparr> tick
              = Inr ((''WH/IN/0001'', ''Done''), st')"
    and s: "\<forall>s. find_one (\<lambda>p. sku p = s) (product st') =
            map_option (add_stock (line_total s (lines seed_receipt))) (find_one (\<lambda>p. sku p = s) (product seed_store))"
    and d: "map Move.direction (drop (length (move seed_store)) (move st')) = replicate (length (lines seed_receipt)) ''in''"
    by blast
  have s': "find_one (\<lambda>p. sku p = ''DESK001'') (product st')
            = Some (desk\<lparr>on_hand := 55, free_to_use := 50\<rparr>)"
    using s [rule_format, of "''DESK001''"]
    by (simp add: seed_store_def seed_receipt_def desk_def line_total_def add_stock_def)
  have d': "map Move.direction (move st') = [''in'']"
    using d by (simp add: seed_store_def seed_receipt_def)
  show ?thesis
    using h1 h2 r s' d' by (intro conjI exI [where x = st']) assumption+
qed

subsection \<open>Validating a delivery, and its stock check\<close>

lemma delivery_action_validate:
  assumes "find_one (\<lambda>r. reference r = ref) (delivery st) = Some rec"
    and "status rec = ''Ready''" and "action payload = ''validate''"
  shows "delivery_action (Some st) ref payload now =
     Inr ((ref, ''Done''),
          st\<lparr>product := apply_stock (\<lambda>q. - q) (product st) (lines rec),
             move := log_moves ''out'' ref rec now 0 (move st) (lines rec),
             delivery := update_one (\<lambda>r. reference r = ref) (set_status ''Done'') (delivery st)\<rparr>)"
  using assms by (simp add: delivery_action_def)

text \<open>
  Claim C2. For a delivery whose status is \<^verbatim>\<open>Ready\<close>, the action \<^verbatim>\<open>validate\<close> answers with
  status \<^verbatim>\<open>Done\<close> and stores it; for every sku, the product found under that sku has
  \<^verbatim>\<open>on_hand\<close> and \<^verbatim>\<open>free_to_use\<close> lowered by the quantities of the delivery's lines for
  that sku (each line takes its own quantity; nothing keeps the result from going below
  zero); the move collection gains exactly one move per line, in line order, each with
  direction \<^verbatim>\<open>out\<close> and the line's sku and quantity; receipts are untouched.
\<close>

theorem delivery_validate_ready:
  assumes found: "find_one (\<lambda>r. reference r = ref) (delivery st) = Some rec"
    and ready: "status rec = ''Ready''"
    and act: "action payload = ''validate''"
  shows "\<exists>st'. delivery_action (Some st) ref payload now = Inr ((ref, ''Done''), st')
     \<and> find_one (\<lambda>r. reference r = ref) (delivery st') = Some (rec\<lparr>status := ''Done''\<rparr>)
     \<and> (\<forall>s. find_one (\<lambda>p. sku p = s) (product st') =
            map_option (add_stock (- line_total s (lines rec))) (find_one (\<lambda>p. sku p = s) (product st)))
     \<and> map sku (product st') = map sku (product st)
     \<and> move st' = move st @ map (\<lambda>(i, l). make_move ''out'' ref rec (now i) l) (enumerate 0 (lines rec))
     \<and> length (move st') = length (move st) + length (lines rec)
     \<and> map Move.direction (drop (length (move st)) (move st')) = replicate (length (lines rec)) ''out''
     \<and> map Move.product_sku (drop (length (move st)) (move st')) = map product_sku (lines rec)
     \<and> map Move.quantity (drop (length (move st)) (move st')) = map quantity (lines rec)
     \<and> receipt st' = receipt st"
proof -
  let ?st' = "st\<lparr>product := apply_stock (\<lambda>q. - q) (product st) (lines rec),
             move := log_moves ''out'' ref rec now 0 (move st) (lines rec),
             delivery := update_one (\<lambda>r. reference r = ref) (set_status ''Done'') (delivery st)\<rparr>"
  have run: "delivery_action (Some st) ref payload now = Inr ((ref, ''Done''), ?st')"
    by (rule delivery_action_validate [OF found ready act])
  have st: "find_one (\<lambda>r. reference r = ref) (delivery ?st') = Some (rec\<lparr>status := ''Done''\<rparr>)"
    by (simp add: find_one_set_status [OF found])
  have stock: "\<forall>s. find_one (\<lambda>p. sku p = s) (product ?st') =
            map_option (add_stock (- line_total s (lines rec))) (find_one (\<lambda>p. sku p = s) (product st))"
    by (simp add: find_one_stock_out)
  have skus: "map sku (product ?st') = map sku (product st)"
    by (simp add: map_sku_apply_stock)
  have mv: "move ?st' = move st @ map (\<lambda>(i, l). make_move ''out'' ref rec (now i) l) (enumerate 0 (lines rec))"
    by (simp add: log_moves_eq)
  have len: "length (move ?st') = length (move st) + length (lines rec)"
    by (simp add: mv)
  have dir: "map Move.direction (drop (length (move st)) (move ?st')) = replicate (length (lines rec)) ''out''"
    unfolding mv by (simp only: drop_append drop_all order_refl diff_self_eq_0 drop_0 append_Nil new_moves_direction)
  have sk: "map Move.product_sku (drop (length (move st)) (move ?st')) = map product_sku (lines rec)"
    unfolding mv by (simp only: drop_append drop_all order_refl diff_self_eq_0 drop_0 append_Nil new_moves_sku)
  have qt: "map Move.quantity (drop (length (move st)) (move ?st')) = map quantity (lines rec)"
    unfolding mv by (simp only: drop_append drop_all order_refl diff_self_eq_0 drop_0 append_Nil new_moves_quantity)
  have rc: "receipt ?st' = receipt st" by simp
  from run st stock skus mv len dir sk qt rc show ?thesis by blast
qed

theorem delivery_validate_ready_witness:
  "find_one (\<lambda>r. reference r = ''WH/OUT/0001'')
       (delivery (seed_store\<lparr>delivery := [seed_delivery\<lparr>status := ''Ready''\<rparr>]\<rparr>))
     = Some (seed_delivery\<lparr>status := ''Ready''\<rparr>)
   \<and> status (seed_delivery\<lparr>status := ''Ready''\<rparr>) = ''Ready''
   \<and> (\<exists>st'. delivery_action (Some (seed_store\<lparr>delivery := [seed_delivery\<lparr>status := ''Ready''\<rparr>]\<rparr>))
                ''WH/OUT/0001'' \<lparr>action = ''validate''\<rparr> tick
              = Inr ((''WH/OUT/0001'', ''Done''), st')
        \<and> find_one (\<lambda>p. sku p = ''DESK001'') (product st')
            = Some (desk\<lparr>on_hand := 44, free_to_use := 39\<rparr>)
        \<and> map Move.direction (move st') = [''out''])"
proof -
  let ?rec = "seed_delivery\<lparr>status := ''Ready''\<rparr>"
  let ?st = "seed_store\<lparr>delivery := [?rec]\<rparr>"
  have h1: "find_one (\<lambda>r. reference r = ''WH/OUT/0001'') (delivery ?st) = Some ?rec"
    by (simp add: seed_store_def seed_delivery_def)
  have h2: "status ?rec = ''Ready''"
    by simp
  have h3: "action \<lparr>action = ''validate''\<rparr> = ''validate''" by simp
  from delivery_validate_ready [OF h1 h2 h3, of tick]
  obtain st' where
    r: "delivery_action (Some ?st) ''WH/OUT/0001'' \<lparr>action = ''validate''\<rparr> tick
              = Inr ((''WH/OUT/0001'', ''Done''), st')"
    and s: "\<forall>s. find_one (\<lambda>p. sku p = s) (product st') =
            map_option (add_stock (- line_total s (lines ?rec))) (find_one (\<lambda>p. sku p = s) (product ?st))"
    and d: "map Move.direction (drop (length (move ?st)) (move st')) = replicate (length (lines ?rec)) ''out''"
    by blast
  have s': "find_one (\<lambda>p. sku p = ''DESK001'') (product st')
            = Some (desk\<lparr>on_hand := 44, free_to_use := 39\<rparr>)"
    using s [rule_format, of "''DESK001''"]
    by (simp add: seed_store_def seed_delivery_def desk_def line_total_def add_stock_def)
  have d': "map Move.direction (move st') = [''out'']"
    using d by (simp add: seed_store_def seed_delivery_def)
  show ?thesis
    using h1 h2 r s' d' by (intro conjI exI [where x = st']) assumption+
qed

lemma insufficient_Nil_iff: "insufficient ps ls = [] \<longleftrightarrow> (\<forall>l\<in>set ls. covered ps l)"
  by (induction ls) (auto simp: covered_def split: option.splits)

lemma delivery_action_todo:
  assumes "find_one (\<lambda>r. reference r = ref) (delivery st) = Some rec"
    and "status rec = ''Draft''" and "action payload = ''todo''"
  shows "delivery_action (Some st) ref payload now =
     Inr ((ref, if \<forall>l\<in>set (lines rec). covered (product st) l then ''Ready'' else ''Waiting''),
          st\<lparr>delivery := update_one (\<lambda>r. reference r = ref)
                (set_status (if \<forall>l\<in>set (lines rec). covered (product st) l then ''Ready'' else ''Waiting''))
                (delivery st)\<rparr>)"
  using assms by (simp add: delivery_action_def insufficient_Nil_iff)

text \<open>
  Claim C3. For a delivery whose status is \<^verbatim>\<open>Draft\<close>, the action \<^verbatim>\<open>todo\<close> answers with a
  status that is \<^verbatim>\<open>Ready\<close> or \<^verbatim>\<open>Waiting\<close> and stores it: \<^verbatim>\<open>Ready\<close> when every line's product
  exists and has \<^verbatim>\<open>free_to_use\<close> of at least the line's quantity, \<^verbatim>\<open>Waiting\<close> when some line's
  product has less \<^verbatim>\<open>free_to_use\<close> than the line's quantity. Each line is checked on its own
  against the stored \<^verbatim>\<open>free_to_use\<close>. Products, moves and receipts are as before.
\<close>

theorem delivery_todo_draft:
  assumes found: "find_one (\<lambda>r. reference r = ref) (delivery st) = Some rec"
    and draft: "status rec = ''Draft''"
    and act: "action payload = ''todo''"
  shows "\<exists>s st'. delivery_action (Some st) ref payload now = Inr ((ref, s), st')
     \<and> find_one (\<lambda>r. reference r = ref) (delivery st') = Some (rec\<lparr>status := s\<rparr>)
     \<and> ((\<forall>l\<in>set (lines rec). \<exists>p. find_one (\<lambda>p. sku p = product_sku l) (product st) = Some p
              \<and> quantity l \<le> free_to_use p) \<longrightarrow> s = ''Ready'')
     \<and> ((\<exists>l\<in>set (lines rec). \<exists>p. find_one (\<lambda>p. sku p = product_sku l) (product st) = Some p
              \<and> free_to_use p < quantity l) \<longrightarrow> s = ''Waiting'')
     \<and> (s = ''Ready'' \<or> s = ''Waiting'')
     \<and> product st' = product st \<and> move st' = move st \<and> receipt st' = receipt st"
proof -
  let ?s = "if \<forall>l\<in>set (lines rec). covered (product st) l then ''Ready'' else ''Waiting''"
  let ?st' = "st\<lparr>delivery := update_one (\<lambda>r. reference r = ref) (set_status ?s) (delivery st)\<rparr>"
  have run: "delivery_action (Some st) ref payload now = Inr ((ref, ?s), ?st')"
    by (rule delivery_action_todo [OF found draft act])
  have stored: "find_one (\<lambda>r. reference r = ref) (delivery ?st') = Some (rec\<lparr>status := ?s\<rparr>)"
    using find_one_set_status [OF found, of ?s] by simp
  have ready: "(\<forall>l\<in>set (lines rec). \<exists>p. find_one (\<lambda>p. sku p = product_sku l) (product st) = Some p
              \<and> quantity l \<le> free_to_use p) \<longrightarrow> ?s = ''Ready''"
    by (fastforce simp: covered_def split: option.splits)
  have waiting: "(\<exists>l\<in>set (lines rec). \<exists>p. find_one (\<lambda>p. sku p = product_sku l) (product st) = Some p
              \<and> free_to_use p < quantity l) \<longrightarrow> ?s = ''Waiting''"
  proof
    assume "\<exists>l\<in>set (lines rec). \<exists>p. find_one (\<lambda>p. sku p = product_sku l) (product st) = Some p
              \<and> free_to_use p < quantity l"
    then obtain l p where l: "l \<in> set (lines rec)"
      and p: "find_one (\<lambda>p. sku p = product_sku l) (product st) = Some p"
      and short: "free_to_use p < quantity l"
      by blast
    from p short have "\<not> covered (product st) l"
      by (simp add: covered_def)
    with l have "\<not> (\<forall>l\<in>set (lines rec). covered (product st) l)"
      by blast
    then show "?s = ''Waiting''" by simp
  qed
  have either: "?s = ''Ready'' \<or> ?s = ''Waiting''" by simp
  have frame: "product ?st' = product st \<and> move ?st' = move st \<and> receipt ?st' = receipt st"
    by simp
  show ?thesis
    using run stored ready waiting either frame
    by (intro exI [where x = ?s] exI [where x = ?st'] conjI) (assumption | simp)+
qed

theorem delivery_todo_draft_witness:
  "find_one (\<lambda>r. reference r = ''WH/OUT/0001'')
       (delivery (seed_store\<lparr>delivery := [seed_delivery\<lparr>status := ''Draft''\<rparr>]\<rparr>))
     = Some (seed_delivery\<lparr>status := ''Draft''\<rparr>)
   \<and> status (seed_delivery\<lparr>status := ''Draft''\<rparr>) = ''Draft''
   \<and> lines (seed_delivery\<lparr>status := ''Draft''\<rparr>) = [\<lparr>product_sku = ''DESK001'', quantity = 6\<rparr>]
   \<and> find_one (\<lambda>p. sku p = ''DESK001'') (product seed_store) = Some desk
   \<and> 6 \<le> free_to_use desk
   \<and> (\<exists>st'. delivery_action (Some (seed_store\<lparr>delivery := [seed_delivery\<lparr>status := ''Draft''\<rparr>]\<rparr>))
                ''WH/OUT/0001'' \<lparr>action = ''todo''\<rparr> tick
              = Inr ((''WH/OUT/0001'', ''Ready''), st')
        \<and> product st' = [desk, table] \<and> move st' = [])"
proof -
  let ?rec = "seed_delivery\<lparr>status := ''Draft''\<rparr>"
  let ?st = "seed_store\<lparr>delivery := [?rec]\<rparr>"
  have h1: "find_one (\<lambda>r. reference r = ''WH/OUT/0001'') (delivery ?st) = Some ?rec"
    by (simp add: seed_store_def seed_delivery_def)
  have h2: "status ?rec = ''Draft''"
    by simp
  have h3: "action \<lparr>action = ''todo''\<rparr> = ''todo''" by simp
  have enough: "\<forall>l\<in>set (lines ?rec).
         \<exists>p. find_one (\<lambda>p. sku p = product_sku l) (product seed_store) = Some p
              \<and> quantity l \<le> free_to_use p"
    by (simp add: seed_store_def seed_delivery_def desk_def)
  have enough': "\<forall>l\<in>set (lines ?rec).
         \<exists>p. find_one (\<lambda>p. sku p = product_sku l) (product ?st) = Some p
              \<and> quantity l \<le> free_to_use p"
    using enough by simp
  from delivery_todo_draft [OF h1 h2 h3, of tick]
  obtain s st' where
    r: "delivery_action (Some ?st) ''WH/OUT/0001'' \<lparr>action = ''todo''\<rparr> tick
              = Inr ((''WH/OUT/0001'', s), st')"
    and ready: "(\<forall>l\<in>set (lines ?rec).
         \<exists>p. find_one (\<lambda>p. sku p = product_sku l) (product ?st) = Some p
              \<and> quantity l \<le> free_to_use p) \<longrightarrow> s = ''Ready''"
    and pr: "product st' = product ?st" and mv: "move st' = move ?st"
    by blast
  from ready enough' have s: "s = ''Ready''" by blast
  have r': "delivery_action (Some ?st) ''WH/OUT/0001'' \<lparr>action = ''todo''\<rparr> tick
              = Inr ((''WH/OUT/0001'', ''Ready''), st')"
    using r s by simp
  have pr': "product st' = [desk, table]" using pr by (simp add: seed_store_def)
  have mv': "move st' = []" using mv by (simp add: seed_store_def)
  have l: "lines ?rec = [\<lparr>product_sku = ''DESK001'', quantity = 6\<rparr>]"
    by (simp add: seed_delivery_def)
  have f: "find_one (\<lambda>p. sku p = ''DESK001'') (product seed_store) = Some desk"
    by (simp add: seed_store_def desk_def)
  have q: "6 \<le> free_to_use desk"
    by (simp add: desk_def)
  show ?thesis
    using h1 h2 l f q r' pr' mv' by (intro conjI exI [where x = st']) assumption+
qed

text \<open>
  Claim C10. For a delivery whose status is \<^verbatim>\<open>Draft\<close>, when some line names a sku that no
  product document carries, the action \<^verbatim>\<open>todo\<close> answers \<^verbatim>\<open>Waiting\<close> and stores it, whatever the
  other lines are; nothing but the delivery's status changes.
\<close>

theorem delivery_todo_missing_product:
  assumes found: "find_one (\<lambda>r. reference r = ref) (delivery st) = Some rec"
    and draft: "status rec = ''Draft''"
    and act: "action payload = ''todo''"
    and line: "l \<in> set (lines rec)"
    and missing: "find_one (\<lambda>p. sku p = product_sku l) (product st) = None"
  shows "delivery_action (Some st) ref payload now =
     Inr ((ref, ''Waiting''),
          st\<lparr>delivery := update_one (\<lambda>r. reference r = ref) (set_status ''Waiting'') (delivery st)\<rparr>)
     \<and> find_one (\<lambda>r. reference r = ref)
          (update_one (\<lambda>r. reference r = ref) (set_status ''Waiting'') (delivery st))
        = Some (rec\<lparr>status := ''Waiting''\<rparr>)"
proof -
  have "\<not> covered (product st) l"
    using missing by (simp add: covered_def)
  with line have "\<not> (\<forall>l\<in>set (lines rec). covered (product st) l)"
    by blast
  then show ?thesis
    using delivery_action_todo [OF found draft act, of now] find_one_set_status [OF found, of "''Waiting''"]
    by simp
qed

theorem delivery_todo_missing_product_witness:
  "ghost_line \<in> set (lines (seed_delivery\<lparr>status := ''Draft'', lines := [ghost_line]\<rparr>))
   \<and> find_one (\<lambda>p. sku p = product_sku ghost_line) (product seed_store) = None
   \<and> delivery_action
       (Some (seed_store\<lparr>delivery := [seed_delivery\<lparr>status := ''Draft'', lines := [ghost_line]\<rparr>]\<rparr>))
       ''WH/OUT/0001'' \<lparr>action = ''todo''\<rparr> tick
     = Inr ((''WH/OUT/0001'', ''Waiting''),
            seed_store\<lparr>delivery := [seed_delivery\<lparr>status := ''Waiting'', lines := [ghost_line]\<rparr>]\<rparr>)"
proof -
  let ?rec = "seed_delivery\<lparr>status := ''Draft'', lines := [ghost_line]\<rparr>"
  let ?st = "seed_store\<lparr>delivery := [?rec]\<rparr>"
  have h1: "find_one (\<lambda>r. reference r = ''WH/OUT/0001'') (delivery ?st) = Some ?rec"
    by (simp add: seed_store_def seed_delivery_def)
  have h2: "status ?rec = ''Draft''"
    by simp
  have h3: "action \<lparr>action = ''todo''\<rparr> = ''todo''" by simp
  have h4: "ghost_line \<in> set (lines ?rec)" by simp
  have h5: "find_one (\<lambda>p. sku p = product_sku ghost_line) (product seed_store) = None"
    by (simp add: seed_store_def ghost_line_def desk_def table_def)
  have h5': "find_one (\<lambda>p. sku p = product_sku ghost_line) (product ?st) = None"
    using h5 by simp
  have "delivery_action (Some ?st) ''WH/OUT/0001'' \<lparr>action = ''todo''\<rparr> tick
     = Inr ((''WH/OUT/0001'', ''Waiting''),
            seed_store\<lparr>delivery := [seed_delivery\<lparr>status := ''Waiting'', lines := [ghost_line]\<rparr>]\<rparr>)"
    using delivery_todo_missing_product [OF h1 h2 h3 h4 h5', of tick]
    by (simp add: seed_store_def seed_delivery_def set_status_def)
  with h4 h5 show ?thesis by simp
qed

subsection \<open>Transitions that do not apply, cancelling, and missing products\<close>

lemma store_receipt_same: "st\<lparr>receipt := receipt st\<rparr> = st" for st :: store
  by simp

lemma store_delivery_same: "st\<lparr>delivery := delivery st\<rparr> = st" for st :: store
  by simp

lemma receipt_action_noop:
  assumes found: "find_one (\<lambda>r. reference r = ref) (receipt st) = Some rec"
    and no_todo: "\<not> (action payload = ''todo'' \<and> status rec = ''Draft'')"
    and no_validate: "\<not> (action payload = ''validate'' \<and> status rec = ''Ready'')"
    and no_cancel: "action payload \<noteq> ''cancel''"
  shows "receipt_action (Some st) ref payload now = Inr ((ref, status rec), st)"
proof -
  have same: "update_one (\<lambda>r. reference r = ref) (set_status (status rec)) (receipt st) = receipt st"
    using found by (rule update_one_fixed) (rule set_status_same)
  show ?thesis
    using found no_todo no_validate no_cancel
    by (auto simp add: receipt_action_def same)
qed

lemma delivery_action_noop:
  assumes found: "find_one (\<lambda>r. reference r = ref) (delivery st) = Some rec"
    and no_todo: "\<not> (action payload = ''todo'' \<and> status rec = ''Draft'')"
    and no_validate: "\<not> (action payload = ''validate'' \<and> status rec = ''Ready'')"
    and no_cancel: "action payload \<noteq> ''cancel''"
  shows "delivery_action (Some st) ref payload now = Inr ((ref, status rec), st)"
proof -
  have same: "update_one (\<lambda>r. reference r = ref) (set_status (status rec)) (delivery st) = delivery st"
    using found by (rule update_one_fixed) (rule set_status_same)
  show ?thesis
    using found no_todo no_validate no_cancel
    by (auto simp add: delivery_action_def same)
qed

lemma receipt_action_cancel:
  assumes found: "find_one (\<lambda>r. reference r = ref) (receipt st) = Some rec"
    and act: "action payload = ''cancel''"
  shows "receipt_action (Some st) ref payload now =
     Inr ((ref, ''Canceled''),
          st\<lparr>receipt := update_one (\<lambda>r. reference r = ref) (set_status ''Canceled'') (receipt st)\<rparr>)"
  using found act by (simp add: receipt_action_def)

lemma delivery_action_cancel:
  assumes found: "find_one (\<lambda>r. reference r = ref) (delivery st) = Some rec"
    and act: "action payload = ''cancel''"
  shows "delivery_action (Some st) ref payload now =
     Inr ((ref, ''Canceled''),
          st\<lparr>delivery := update_one (\<lambda>r. reference r = ref) (set_status ''Canceled'') (delivery st)\<rparr>)"
  using found act by (simp add: delivery_action_def)

text \<open>
  Claim C4. \<^verbatim>\<open>validate\<close> on a receipt or a delivery whose status is already \<^verbatim>\<open>Done\<close> answers
  \<^verbatim>\<open>Done\<close> and leaves the whole store as it was: no product's \<^verbatim>\<open>on_hand\<close> or \<^verbatim>\<open>free_to_use\<close>
  changes and no move is appended, because the branch is guarded by the status being
  \<^verbatim>\<open>Ready\<close>.
\<close>

theorem validate_done_unchanged:
  assumes act: "action payload = ''validate''"
  shows "(find_one (\<lambda>r. reference r = ref) (receipt st) = Some rec \<and> status rec = ''Done''
            \<longrightarrow> receipt_action (Some st) ref payload now = Inr ((ref, ''Done''), st))
       \<and> (find_one (\<lambda>r. reference r = ref) (delivery st) = Some drec \<and> status drec = ''Done''
            \<longrightarrow> delivery_action (Some st) ref payload now = Inr ((ref, ''Done''), st))"
proof (intro conjI impI)
  assume a: "find_one (\<lambda>r. reference r = ref) (receipt st) = Some rec \<and> status rec = ''Done''"
  then have "receipt_action (Some st) ref payload now = Inr ((ref, status rec), st)"
    using act by (intro receipt_action_noop) simp_all
  with a show "receipt_action (Some st) ref payload now = Inr ((ref, ''Done''), st)"
    by simp
next
  assume a: "find_one (\<lambda>r. reference r = ref) (delivery st) = Some drec \<and> status drec = ''Done''"
  then have "delivery_action (Some st) ref payload now = Inr ((ref, status drec), st)"
    using act by (intro delivery_action_noop) simp_all
  with a show "delivery_action (Some st) ref payload now = Inr ((ref, ''Done''), st)"
    by simp
qed

theorem validate_done_unchanged_witness:
  "find_one (\<lambda>r. reference r = ''WH/IN/0001'')
       (receipt (seed_store\<lparr>receipt := [seed_receipt\<lparr>status := ''Done''\<rparr>]\<rparr>))
     = Some (seed_receipt\<lparr>status := ''Done''\<rparr>)
   \<and> status (seed_receipt\<lparr>status := ''Done''\<rparr>) = ''Done''
   \<and> receipt_action (Some (seed_store\<lparr>receipt := [seed_receipt\<lparr>status := ''Done''\<rparr>]\<rparr>))
        ''WH/IN/0001'' \<lparr>action = ''validate''\<rparr> tick
      = Inr ((''WH/IN/0001'', ''Done''), seed_store\<lparr>receipt := [seed_receipt\<lparr>status := ''Done''\<rparr>]\<rparr>)"
proof -
  let ?rec = "seed_receipt\<lparr>status := ''Done''\<rparr>"
  let ?st = "seed_store\<lparr>receipt := [?rec]\<rparr>"
  have h1: "find_one (\<lambda>r. reference r = ''WH/IN/0001'') (receipt ?st) = Some ?rec"
    by (simp add: seed_store_def seed_receipt_def)
  have h2: "status ?rec = ''Done''" by simp
  have h3: "action \<lparr>action = ''validate''\<rparr> = ''validate''" by simp
  from validate_done_unchanged [OF h3, where ref = "''WH/IN/0001''" and st = ?st and rec = ?rec
      and now = tick, THEN conjunct1] h1 h2
  have "receipt_action (Some ?st) ''WH/IN/0001'' \<lparr>action = ''validate''\<rparr> tick
      = Inr ((''WH/IN/0001'', ''Done''), ?st)"
    by blast
  with h1 h2 show ?thesis by blast
qed

text \<open>
  Claim C6. For an existing receipt or delivery, an action that is not \<^verbatim>\<open>cancel\<close> and is
  neither \<^verbatim>\<open>todo\<close> on status \<^verbatim>\<open>Draft\<close> nor \<^verbatim>\<open>validate\<close> on status \<^verbatim>\<open>Ready\<close> (an unknown action
  name, or a known one whose status precondition fails) is a no-op: the call returns
  normally with the current status, and the store, in which that same status is written
  again, is as it was.
\<close>

theorem invalid_transition_noop:
  assumes no_cancel: "action payload \<noteq> ''cancel''"
  shows "(find_one (\<lambda>r. reference r = ref) (receipt st) = Some rec
          \<and> \<not> (action payload = ''todo'' \<and> status rec = ''Draft'')
          \<and> \<not> (action payload = ''validate'' \<and> status rec = ''Ready'')
            \<longrightarrow> receipt_action (Some st) ref payload now = Inr ((ref, status rec), st))
       \<and> (find_one (\<lambda>r. reference r = ref) (delivery st) = Some drec
          \<and> \<not> (action payload = ''todo'' \<and> status drec = ''Draft'')
          \<and> \<not> (action payload = ''validate'' \<and> status drec = ''Ready'')
            \<longrightarrow> delivery_action (Some st) ref payload now = Inr ((ref, status drec), st))"
  using no_cancel receipt_action_noop [of ref st rec payload now]
    delivery_action_noop [of ref st drec payload now]
  by blast

theorem invalid_transition_noop_witness:
  "''todo'' \<noteq> ''cancel''
   \<and> find_one (\<lambda>r. reference r = ''WH/OUT/0001'') (delivery seed_store) = Some seed_delivery
   \<and> status seed_delivery = ''Waiting''
   \<and> delivery_action (Some seed_store) ''WH/OUT/0001'' \<lparr>action = ''todo''\<rparr> tick
      = Inr ((''WH/OUT/0001'', ''Waiting''), seed_store)"
proof -
  have h0: "action \<lparr>action = ''todo''\<rparr> \<noteq> ''cancel''" by simp
  have h1: "find_one (\<lambda>r. reference r = ''WH/OUT/0001'') (delivery seed_store) = Some seed_delivery"
    by (simp add: seed_store_def seed_delivery_def)
  have h2: "status seed_delivery = ''Waiting''" by (simp add: seed_delivery_def)
  have h3: "\<not> (action \<lparr>action = ''todo''\<rparr> = ''todo'' \<and> status seed_delivery = ''Draft'')"
    by (simp add: h2)
  have h4: "\<not> (action \<lparr>action = ''todo''\<rparr> = ''validate'' \<and> status seed_delivery = ''Ready'')"
    by simp
  from invalid_transition_noop [OF h0, where ref = "''WH/OUT/0001''" and st = seed_store
      and drec = seed_delivery and now = tick, THEN conjunct2] h1 h3 h4
  have "delivery_action (Some seed_store) ''WH/OUT/0001'' \<lparr>action = ''todo''\<rparr> tick
      = Inr ((''WH/OUT/0001'', status seed_delivery), seed_store)"
    by blast
  with h1 h2 show ?thesis by simp
qed

text \<open>
  Claim C7. \<^verbatim>\<open>cancel\<close> on a receipt or a delivery answers \<^verbatim>\<open>Canceled\<close> and stores it; products
  and moves (and the other operation collection) are as before. The code puts no condition
  on the current status, so this holds in particular for every non-terminal status.
\<close>

theorem cancel_sets_canceled:
  assumes act: "action payload = ''cancel''"
  shows "(find_one (\<lambda>r. reference r = ref) (receipt st) = Some rec \<longrightarrow>
           (\<exists>st'. receipt_action (Some st) ref payload now = Inr ((ref, ''Canceled''), st')
              \<and> find_one (\<lambda>r. reference r = ref) (receipt st') = Some (rec\<lparr>status := ''Canceled''\<rparr>)
              \<and> product st' = product st \<and> move st' = move st \<and> delivery st' = delivery st))
       \<and> (find_one (\<lambda>r. reference r = ref) (delivery st) = Some drec \<longrightarrow>
           (\<exists>st'. delivery_action (Some st) ref payload now = Inr ((ref, ''Canceled''), st')
              \<and> find_one (\<lambda>r. reference r = ref) (delivery st') = Some (drec\<lparr>status := ''Canceled''\<rparr>)
              \<and> product st' = product st \<and> move st' = move st \<and> receipt st' = receipt st))"
proof (intro conjI impI)
  assume found: "find_one (\<lambda>r. reference r = ref) (receipt st) = Some rec"
  let ?st' = "st\<lparr>receipt := update_one (\<lambda>r. reference r = ref) (set_status ''Canceled'') (receipt st)\<rparr>"
  have "receipt_action (Some st) ref payload now = Inr ((ref, ''Canceled''), ?st')"
    by (rule receipt_action_cancel [OF found act])
  moreover have "find_one (\<lambda>r. reference r = ref) (receipt ?st') = Some (rec\<lparr>status := ''Canceled''\<rparr>)"
    by (simp add: find_one_set_status [OF found])
  moreover have "product ?st' = product st \<and> move ?st' = move st \<and> delivery ?st' = delivery st"
    by simp
  ultimately show "\<exists>st'. receipt_action (Some st) ref payload now = Inr ((ref, ''Canceled''), st')
              \<and> find_one (\<lambda>r. reference r = ref) (receipt st') = Some (rec\<lparr>status := ''Canceled''\<rparr>)
              \<and> product st' = product st \<and> move st' = move st \<and> delivery st' = delivery st"
    by blast
next
  assume found: "find_one (\<lambda>r. reference r = ref) (delivery st) = Some drec"
  let ?st' = "st\<lparr>delivery := update_one (\<lambda>r. reference r = ref) (set_status ''Canceled'') (delivery st)\<rparr>"
  have "delivery_action (Some st) ref payload now = Inr ((ref, ''Canceled''), ?st')"
    by (rule delivery_action_cancel [OF found act])
  moreover have "find_one (\<lambda>r. reference r = ref) (delivery ?st') = Some (drec\<lparr>status := ''Canceled''\<rparr>)"
    by (simp add: find_one_set_status [OF found])
  moreover have "product ?st' = product st \<and> move ?st' = move st \<and> receipt ?st' = receipt st"
    by simp
  ultimately show "\<exists>st'. delivery_action (Some st) ref payload now = Inr ((ref, ''Canceled''), st')
              \<and> find_one (\<lambda>r. reference r = ref) (delivery st') = Some (drec\<lparr>status := ''Canceled''\<rparr>)
              \<and> product st' = product st \<and> move st' = move st \<and> receipt st' = receipt st"
    by blast
qed

theorem cancel_sets_canceled_witness:
  "find_one (\<lambda>r. reference r = ''WH/IN/0001'') (receipt seed_store) = Some seed_receipt
   \<and> status seed_receipt = ''Ready''
   \<and> (\<exists>st'. receipt_action (Some seed_store) ''WH/IN/0001'' \<lparr>action = ''cancel''\<rparr> tick
              = Inr ((''WH/IN/0001'', ''Canceled''), st')
        \<and> find_one (\<lambda>r. reference r = ''WH/IN/0001'') (receipt st')
            = Some (seed_receipt\<lparr>status := ''Canceled''\<rparr>)
        \<and> product st' = [desk, table] \<and> move st' = [])"
proof -
  have h1: "find_one (\<lambda>r. reference r = ''WH/IN/0001'') (receipt seed_store) = Some seed_receipt"
    by (simp add: seed_store_def seed_receipt_def)
  have h2: "status seed_receipt = ''Ready''" by (simp add: seed_receipt_def)
  have h3: "action \<lparr>action = ''cancel''\<rparr> = ''cancel''" by simp
  from cancel_sets_canceled [OF h3, where ref = "''WH/IN/0001''" and st = seed_store
      and rec = seed_receipt and now = tick, THEN conjunct1] h1
  obtain st' where
    r: "receipt_action (Some seed_store) ''WH/IN/0001'' \<lparr>action = ''cancel''\<rparr> tick
              = Inr ((''WH/IN/0001'', ''Canceled''), st')"
    and f: "find_one (\<lambda>r. reference r = ''WH/IN/0001'') (receipt st')
            = Some (seed_receipt\<lparr>status := ''Canceled''\<rparr>)"
    and pr: "product st' = product seed_store" and mv: "move st' = move seed_store"
    by blast
  have pr': "product st' = [desk, table]" using pr by (simp add: seed_store_def)
  have mv': "move st' = []" using mv by (simp add: seed_store_def)
  show ?thesis
    using h1 h2 r f pr' mv' by (intro conjI exI [where x = st']) assumption+
qed

text \<open>
  Claim C5 as stated fails: \<^verbatim>\<open>cancel\<close> on a receipt whose status is \<^verbatim>\<open>Done\<close> changes the status
  to \<^verbatim>\<open>Canceled\<close>.
\<close>

theorem cancel_done_receipt_counterexample:
  "status (seed_receipt\<lparr>status := ''Done''\<rparr>) = ''Done''
   \<and> receipt_action (Some (seed_store\<lparr>receipt := [seed_receipt\<lparr>status := ''Done''\<rparr>]\<rparr>))
        ''WH/IN/0001'' \<lparr>action = ''cancel''\<rparr> tick
      = Inr ((''WH/IN/0001'', ''Canceled''),
             seed_store\<lparr>receipt := [seed_receipt\<lparr>status := ''Canceled''\<rparr>]\<rparr>)"
  by (simp add: receipt_action_def seed_store_def seed_receipt_def set_status_def)

text \<open>
  Claim C5, amended. For a receipt or a delivery whose status is \<^verbatim>\<open>Done\<close> or \<^verbatim>\<open>Canceled\<close>,
  every action other than \<^verbatim>\<open>cancel\<close> leaves the status as it is, and \<^verbatim>\<open>cancel\<close> yields
  \<^verbatim>\<open>Canceled\<close> (so it leaves a \<^verbatim>\<open>Canceled\<close> operation as it is and moves a \<^verbatim>\<open>Done\<close> one to
  \<^verbatim>\<open>Canceled\<close>); in every case products and moves are as before.
\<close>

theorem terminal_status_except_cancel:
  shows "(find_one (\<lambda>r. reference r = ref) (receipt st) = Some rec
          \<and> (status rec = ''Done'' \<or> status rec = ''Canceled'') \<longrightarrow>
           (\<exists>st'. receipt_action (Some st) ref payload now
                    = Inr ((ref, if action payload = ''cancel'' then ''Canceled'' else status rec), st')
              \<and> find_one (\<lambda>r. reference r = ref) (receipt st')
                  = Some (rec\<lparr>status := if action payload = ''cancel'' then ''Canceled'' else status rec\<rparr>)
              \<and> product st' = product st \<and> move st' = move st))
       \<and> (find_one (\<lambda>r. reference r = ref) (delivery st) = Some drec
          \<and> (status drec = ''Done'' \<or> status drec = ''Canceled'') \<longrightarrow>
           (\<exists>st'. delivery_action (Some st) ref payload now
                    = Inr ((ref, if action payload = ''cancel'' then ''Canceled'' else status drec), st')
              \<and> find_one (\<lambda>r. reference r = ref) (delivery st')
                  = Some (drec\<lparr>status := if action payload = ''cancel'' then ''Canceled'' else status drec\<rparr>)
              \<and> product st' = product st \<and> move st' = move st))"
proof (intro conjI impI)
  assume a: "find_one (\<lambda>r. reference r = ref) (receipt st) = Some rec
          \<and> (status rec = ''Done'' \<or> status rec = ''Canceled'')"
  then have found: "find_one (\<lambda>r. reference r = ref) (receipt st) = Some rec"
    and nd: "status rec \<noteq> ''Draft''" and nr: "status rec \<noteq> ''Ready''"
    by auto
  let ?s = "if action payload = ''cancel'' then ''Canceled'' else status rec"
  show "\<exists>st'. receipt_action (Some st) ref payload now = Inr ((ref, ?s), st')
              \<and> find_one (\<lambda>r. reference r = ref) (receipt st') = Some (rec\<lparr>status := ?s\<rparr>)
              \<and> product st' = product st \<and> move st' = move st"
  proof (cases "action payload = ''cancel''")
    case True
    let ?st' = "st\<lparr>receipt := update_one (\<lambda>r. reference r = ref) (set_status ''Canceled'') (receipt st)\<rparr>"
    have "receipt_action (Some st) ref payload now = Inr ((ref, ?s), ?st')"
      using receipt_action_cancel [OF found True, of now] True by simp
    moreover have "find_one (\<lambda>r. reference r = ref) (receipt ?st') = Some (rec\<lparr>status := ?s\<rparr>)"
      using True by (simp add: find_one_set_status [OF found])
    moreover have "product ?st' = product st \<and> move ?st' = move st" by simp
    ultimately show ?thesis by blast
  next
    case False
    have "receipt_action (Some st) ref payload now = Inr ((ref, ?s), st)"
      using receipt_action_noop [OF found _ _ False, of now] nd nr False by simp
    moreover have "find_one (\<lambda>r. reference r = ref) (receipt st) = Some (rec\<lparr>status := ?s\<rparr>)"
      using found False by simp
    ultimately show ?thesis by blast
  qed
next
  assume a: "find_one (\<lambda>r. reference r = ref) (delivery st) = Some drec
          \<and> (status drec = ''Done'' \<or> status drec = ''Canceled'')"
  then have found: "find_one (\<lambda>r. reference r = ref) (delivery st) = Some drec"
    and nd: "status drec \<noteq> ''Draft''" and nr: "status drec \<noteq> ''Ready''"
    by auto
  let ?s = "if action payload = ''cancel'' then ''Canceled'' else status drec"
  show "\<exists>st'. delivery_action (Some st) ref payload now = Inr ((ref, ?s), st')
              \<and> find_one (\<lambda>r. reference r = ref) (delivery st') = Some (drec\<lparr>status := ?s\<rparr>)
              \<and> product st' = product st \<and> move st' = move st"
  proof (cases "action payload = ''cancel''")
    case True
    let ?st' = "st\<lparr>delivery := update_one (\<lambda>r. reference r = ref) (set_status ''Canceled'') (delivery st)\<rparr>"
    have "delivery_action (Some st) ref payload now = Inr ((ref, ?s), ?st')"
      using delivery_action_cancel [OF found True, of now] True by simp
    moreover have "find_one (\<lambda>r. reference r = ref) (delivery ?st') = Some (drec\<lparr>status := ?s\<rparr>)"
      using True by (simp add: find_one_set_status [OF found])
    moreover have "product ?st' = product st \<and> move ?st' = move st" by simp
    ultimately show ?thesis by blast
  next
    case False
    have "delivery_action (Some st) ref payload now = Inr ((ref, ?s), st)"
      using delivery_action_noop [OF found _ _ False, of now] nd nr False by simp
    moreover have "find_one (\<lambda>r. reference r = ref) (delivery st) = Some (drec\<lparr>status := ?s\<rparr>)"
      using found False by simp
    ultimately show ?thesis by blast
  qed
qed

theorem terminal_status_except_cancel_witness:
  "find_one (\<lambda>r. reference r = ''WH/IN/0001'')
       (receipt (seed_store\<lparr>receipt := [seed_receipt\<lparr>status := ''Canceled''\<rparr>]\<rparr>))
     = Some (seed_receipt\<lparr>status := ''Canceled''\<rparr>)
   \<and> status (seed_receipt\<lparr>status := ''Canceled''\<rparr>) = ''Canceled''
   \<and> (\<exists>st'. receipt_action (Some (seed_store\<lparr>receipt := [seed_receipt\<lparr>status := ''Canceled''\<rparr>]\<rparr>))
                ''WH/IN/0001'' \<lparr>action = ''validate''\<rparr> tick
              = Inr ((''WH/IN/0001'', ''Canceled''), st')
        \<and> find_one (\<lambda>r. reference r = ''WH/IN/0001'') (receipt st')
            = Some (seed_receipt\<lparr>status := ''Canceled''\<rparr>)
        \<and> product st' = [desk, table] \<and> move st' = [])"
proof -
  let ?rec = "seed_receipt\<lparr>status := ''Canceled''\<rparr>"
  let ?st = "seed_store\<lparr>receipt := [?rec]\<rparr>"
  have h1: "find_one (\<lambda>r. reference r = ''WH/IN/0001'') (receipt ?st) = Some ?rec"
    by (simp add: seed_store_def seed_receipt_def)
  have h2: "status ?rec = ''Canceled''" by simp
  from terminal_status_except_cancel [where ref = "''WH/IN/0001''" and st = ?st
      and rec = ?rec and now = tick and payload = "\<lparr>action = ''validate''\<rparr>", THEN conjunct1] h1 h2
  obtain st' where
    r: "receipt_action (Some ?st) ''WH/IN/0001'' \<lparr>action = ''validate''\<rparr> tick
         = Inr ((''WH/IN/0001'',
                 if action \<lparr>action = ''validate''\<rparr> = ''cancel'' then ''Canceled'' else status ?rec), st')"
    and f: "find_one (\<lambda>r. reference r = ''WH/IN/0001'') (receipt st')
         = Some (?rec\<lparr>status := if action \<lparr>action = ''validate''\<rparr> = ''cancel'' then ''Canceled''
                                  else status ?rec\<rparr>)"
    and pr: "product st' = product ?st" and mv: "move st' = move ?st"
    by blast
  have r': "receipt_action (Some ?st) ''WH/IN/0001'' \<lparr>action = ''validate''\<rparr> tick
         = Inr ((''WH/IN/0001'', ''Canceled''), st')"
    using r by simp
  have f': "find_one (\<lambda>r. reference r = ''WH/IN/0001'') (receipt st') = Some ?rec"
    using f by simp
  have pr': "product st' = [desk, table]" using pr by (simp add: seed_store_def)
  have mv': "move st' = []" using mv by (simp add: seed_store_def)
  show ?thesis
    using h1 h2 r' f' pr' mv' by (intro conjI exI [where x = st']) assumption+
qed

lemma has_product_update_one:
  "has_product (update_one (\<lambda>p. sku p = s) (inc a b) ps) l = has_product ps l"
  by (simp add: has_product_def find_one_sku_inc)

lemma has_product_apply_stock: "has_product (apply_stock delta ps ls) l = has_product ps l"
  by (induction ls arbitrary: ps) (simp_all add: has_product_update_one)

lemma apply_stock_filter:
  "apply_stock delta ps ls = apply_stock delta ps (filter (has_product ps) ls)"
proof (induction ls arbitrary: ps)
  case Nil
  show ?case by simp
next
  case (Cons l ls)
  let ?ps' = "update_one (\<lambda>p. sku p = product_sku l) (inc (delta (quantity l)) (delta (quantity l))) ps"
  have same: "filter (has_product ?ps') ls = filter (has_product ps) ls"
    by (rule filter_cong) (simp_all add: has_product_update_one)
  show ?case
  proof (cases "has_product ps l")
    case True
    have "apply_stock delta ps (l # ls) = apply_stock delta ?ps' ls" by simp
    also have "\<dots> = apply_stock delta ?ps' (filter (has_product ?ps') ls)" by (rule Cons.IH)
    also have "\<dots> = apply_stock delta ?ps' (filter (has_product ps) ls)" by (simp only: same)
    also have "\<dots> = apply_stock delta ps (filter (has_product ps) (l # ls))" using True by simp
    finally show ?thesis .
  next
    case False
    then have "find_one (\<lambda>p. sku p = product_sku l) ps = None"
      by (simp add: has_product_def)
    then have "?ps' = ps" by (rule update_one_no_match)
    then have "apply_stock delta ps (l # ls) = apply_stock delta ps ls" by simp
    also have "\<dots> = apply_stock delta ps (filter (has_product ps) ls)" by (rule Cons.IH)
    also have "\<dots> = apply_stock delta ps (filter (has_product ps) (l # ls))" using False by simp
    finally show ?thesis .
  qed
qed

lemma apply_stock_none: "\<forall>l\<in>set ls. \<not> has_product ps l \<Longrightarrow> apply_stock delta ps ls = ps"
proof -
  assume "\<forall>l\<in>set ls. \<not> has_product ps l"
  then have "filter (has_product ps) ls = []" by (simp add: filter_empty_conv)
  then show ?thesis using apply_stock_filter [of delta ps ls] by simp
qed

text \<open>
  Claim C8. When a \<^verbatim>\<open>Ready\<close> receipt or delivery is validated, the call returns normally
  with \<^verbatim>\<open>Done\<close> whether or not the lines' products exist. The lines whose sku has no product
  document contribute nothing to the stock update: the products afterwards are those the
  remaining lines alone produce, they are the products before when no line has a product,
  and no product document comes into being. The moves appended still carry the sku and
  quantity of every line, those without a product included.
\<close>

theorem validate_skips_missing_product:
  assumes act: "action payload = ''validate''"
  shows "(find_one (\<lambda>r. reference r = ref) (receipt st) = Some rec \<and> status rec = ''Ready'' \<longrightarrow>
           (\<exists>st'. receipt_action (Some st) ref payload now = Inr ((ref, ''Done''), st')
              \<and> product st' = apply_stock (\<lambda>q. q) (product st) (filter (has_product (product st)) (lines rec))
              \<and> ((\<forall>l\<in>set (lines rec). \<not> has_product (product st) l) \<longrightarrow> product st' = product st)
              \<and> (\<forall>l. has_product (product st') l = has_product (product st) l)
              \<and> map Move.product_sku (drop (length (move st)) (move st')) = map product_sku (lines rec)
              \<and> map Move.quantity (drop (length (move st)) (move st')) = map quantity (lines rec)))
       \<and> (find_one (\<lambda>r. reference r = ref) (delivery st) = Some drec \<and> status drec = ''Ready'' \<longrightarrow>
           (\<exists>st'. delivery_action (Some st) ref payload now = Inr ((ref, ''Done''), st')
              \<and> product st' = apply_stock (\<lambda>q. - q) (product st) (filter (has_product (product st)) (lines drec))
              \<and> ((\<forall>l\<in>set (lines drec). \<not> has_product (product st) l) \<longrightarrow> product st' = product st)
              \<and> (\<forall>l. has_product (product st') l = has_product (product st) l)
              \<and> map Move.product_sku (drop (length (move st)) (move st')) = map product_sku (lines drec)
              \<and> map Move.quantity (drop (length (move st)) (move st')) = map quantity (lines drec)))"
proof (intro conjI impI)
  assume a: "find_one (\<lambda>r. reference r = ref) (receipt st) = Some rec \<and> status rec = ''Ready''"
  let ?st' = "st\<lparr>product := apply_stock (\<lambda>q. q) (product st) (lines rec),
             move := log_moves ''in'' ref rec now 0 (move st) (lines rec),
             receipt := update_one (\<lambda>r. reference r = ref) (set_status ''Done'') (receipt st)\<rparr>"
  have run: "receipt_action (Some st) ref payload now = Inr ((ref, ''Done''), ?st')"
    using a act by (intro receipt_action_validate) simp_all
  have pr: "product ?st' = apply_stock (\<lambda>q. q) (product st) (filter (has_product (product st)) (lines rec))"
    using apply_stock_filter [of "\<lambda>q. q" "product st" "lines rec"] by simp
  have none: "(\<forall>l\<in>set (lines rec). \<not> has_product (product st) l) \<longrightarrow> product ?st' = product st"
    by (simp add: apply_stock_none)
  have hp: "\<forall>l. has_product (product ?st') l = has_product (product st) l"
    by (simp add: has_product_apply_stock)
  have mv: "move ?st' = move st @ map (\<lambda>(i, l). make_move ''in'' ref rec (now i) l) (enumerate 0 (lines rec))"
    by (simp add: log_moves_eq)
  have sk: "map Move.product_sku (drop (length (move st)) (move ?st')) = map product_sku (lines rec)"
    unfolding mv by (simp only: drop_append drop_all order_refl diff_self_eq_0 drop_0 append_Nil new_moves_sku)
  have qt: "map Move.quantity (drop (length (move st)) (move ?st')) = map quantity (lines rec)"
    unfolding mv by (simp only: drop_append drop_all order_refl diff_self_eq_0 drop_0 append_Nil new_moves_quantity)
  show "\<exists>st'. receipt_action (Some st) ref payload now = Inr ((ref, ''Done''), st')
              \<and> product st' = apply_stock (\<lambda>q. q) (product st) (filter (has_product (product st)) (lines rec))
              \<and> ((\<forall>l\<in>set (lines rec). \<not> has_product (product st) l) \<longrightarrow> product st' = product st)
              \<and> (\<forall>l. has_product (product st') l = has_product (product st) l)
              \<and> map Move.product_sku (drop (length (move st)) (move st')) = map product_sku (lines rec)
              \<and> map Move.quantity (drop (length (move st)) (move st')) = map quantity (lines rec)"
    using run pr none hp sk qt by (intro exI [where x = ?st'] conjI) assumption+
next
  assume a: "find_one (\<lambda>r. reference r = ref) (delivery st) = Some drec \<and> status drec = ''Ready''"
  let ?st' = "st\<lparr>product := apply_stock (\<lambda>q. - q) (product st) (lines drec),
             move := log_moves ''out'' ref drec now 0 (move st) (lines drec),
             delivery := update_one (\<lambda>r. reference r = ref) (set_status ''Done'') (delivery st)\<rparr>"
  have run: "delivery_action (Some st) ref payload now = Inr ((ref, ''Done''), ?st')"
    using a act by (intro delivery_action_validate) simp_all
  have pr: "product ?st' = apply_stock (\<lambda>q. - q) (product st) (filter (has_product (product st)) (lines drec))"
    using apply_stock_filter [of "\<lambda>q. - q" "product st" "lines drec"] by simp
  have none: "(\<forall>l\<in>set (lines drec). \<not> has_product (product st) l) \<longrightarrow> product ?st' = product st"
    by (simp add: apply_stock_none)
  have hp: "\<forall>l. has_product (product ?st') l = has_product (product st) l"
    by (simp add: has_product_apply_stock)
  have mv: "move ?st' = move st @ map (\<lambda>(i, l). make_move ''out'' ref drec (now i) l) (enumerate 0 (lines drec))"
    by (simp add: log_moves_eq)
  have sk: "map Move.product_sku (drop (length (move st)) (move ?st')) = map product_sku (lines drec)"
    unfolding mv by (simp only: drop_append drop_all order_refl diff_self_eq_0 drop_0 append_Nil new_moves_sku)
  have qt: "map Move.quantity (drop (length (move st)) (move ?st')) = map quantity (lines drec)"
    unfolding mv by (simp only: drop_append drop_all order_refl diff_self_eq_0 drop_0 append_Nil new_moves_quantity)
  show "\<exists>st'. delivery_action (Some st) ref payload now = Inr ((ref, ''Done''), st')
              \<and> product st' = apply_stock (\<lambda>q. - q) (product st) (filter (has_product (product st)) (lines drec))
              \<and> ((\<forall>l\<in>set (lines drec). \<not> has_product (product st) l) \<longrightarrow> product st' = product st)
              \<and> (\<forall>l. has_product (product st') l = has_product (product st) l)
              \<and> map Move.product_sku (drop (length (move st)) (move st')) = map product_sku (lines drec)
              \<and> map Move.quantity (drop (length (move st)) (move st')) = map quantity (lines drec)"
    using run pr none hp sk qt by (intro exI [where x = ?st'] conjI) assumption+
qed

theorem validate_skips_missing_product_witness:
  "find_one (\<lambda>r. reference r = ''WH/IN/0001'')
       (receipt (seed_store\<lparr>receipt := [seed_receipt\<lparr>lines := [ghost_line]\<rparr>]\<rparr>))
     = Some (seed_receipt\<lparr>lines := [ghost_line]\<rparr>)
   \<and> status (seed_receipt\<lparr>lines := [ghost_line]\<rparr>) = ''Ready''
   \<and> \<not> has_product (product seed_store) ghost_line
   \<and> (\<exists>st'. receipt_action (Some (seed_store\<lparr>receipt := [seed_receipt\<lparr>lines := [ghost_line]\<rparr>]\<rparr>))
                ''WH/IN/0001'' \<lparr>action = ''validate''\<rparr> tick
              = Inr ((''WH/IN/0001'', ''Done''), st')
        \<and> product st' = [desk, table]
        \<and> map Move.product_sku (move st') = [''GHOST'']
        \<and> map Move.quantity (move st') = [3])"
proof -
  let ?rec = "seed_receipt\<lparr>lines := [ghost_line]\<rparr>"
  let ?st = "seed_store\<lparr>receipt := [?rec]\<rparr>"
  have h1: "find_one (\<lambda>r. reference r = ''WH/IN/0001'') (receipt ?st) = Some ?rec"
    by (simp add: seed_store_def seed_receipt_def)
  have h2: "status ?rec = ''Ready''" by (simp add: seed_receipt_def)
  have h3: "action \<lparr>action = ''validate''\<rparr> = ''validate''" by simp
  have h4: "\<not> has_product (product seed_store) ghost_line"
    by (simp add: has_product_def seed_store_def ghost_line_def desk_def table_def)
  have h4': "\<forall>l\<in>set (lines ?rec). \<not> has_product (product ?st) l"
    using h4 by simp
  from validate_skips_missing_product [OF h3, where ref = "''WH/IN/0001''" and st = ?st
      and rec = ?rec and now = tick, THEN conjunct1] h1 h2
  obtain st' where
    r: "receipt_action (Some ?st) ''WH/IN/0001'' \<lparr>action = ''validate''\<rparr> tick
              = Inr ((''WH/IN/0001'', ''Done''), st')"
    and none: "(\<forall>l\<in>set (lines ?rec). \<not> has_product (product ?st) l) \<longrightarrow> product st' = product ?st"
    and sk: "map Move.product_sku (drop (length (move ?st)) (move st')) = map product_sku (lines ?rec)"
    and qt: "map Move.quantity (drop (length (move ?st)) (move st')) = map quantity (lines ?rec)"
    by blast
  from none h4' have "product st' = product ?st" by blast
  then have pr': "product st' = [desk, table]" by (simp add: seed_store_def)
  have sk': "map Move.product_sku (move st') = [''GHOST'']"
    using sk by (simp add: seed_store_def ghost_line_def)
  have qt': "map Move.quantity (move st') = [3]"
    using qt by (simp add: seed_store_def ghost_line_def)
  show ?thesis
    using h1 h2 h4 r pr' sk' qt' by (intro conjI exI [where x = st']) assumption+
qed

subsection \<open>References of new operations\<close>

lemma digit_cases: "d < 10 \<Longrightarrow> d \<in> {0, 1, 2, 3, 4, 5, 6, 7, 8, 9::nat}"
  by auto

lemma digit_value_digit_char: "d < 10 \<Longrightarrow> digit_value (digit_char d) = d"
  by (drule digit_cases) (auto simp: digit_char_def digit_value_def)

lemma is_digit_digit_char: "d < 10 \<Longrightarrow> is_digit (digit_char d)"
  by (drule digit_cases) (auto simp: digit_char_def is_digit_def)

lemma decimal_value_snoc: "decimal_value (s @ [c]) = 10 * decimal_value s + digit_value c"
  by (simp add: decimal_value_def)

lemma decimal_value_decimal: "decimal_value (decimal n) = n"
proof (induction n rule: decimal.induct)
  case (1 n)
  show ?case
  proof (cases "n < 10")
    case True
    then show ?thesis
      by (subst decimal.simps) (simp add: decimal_value_def digit_value_digit_char)
  next
    case False
    then have "decimal_value (decimal n) = 10 * decimal_value (decimal (n div 10)) + digit_value (digit_char (n mod 10))"
      by (subst decimal.simps) (simp add: decimal_value_snoc)
    also have "\<dots> = 10 * (n div 10) + n mod 10"
      using False by (simp add: "1.IH" digit_value_digit_char)
    also have "\<dots> = n" by simp
    finally show ?thesis .
  qed
qed

lemma decimal_value_zeros: "decimal_value (replicate k CHR ''0'' @ s) = decimal_value s"
proof -
  have "foldl (\<lambda>a c. 10 * a + digit_value c) 0 (replicate k CHR ''0'') = 0"
    by (induction k) (simp_all add: digit_value_def)
  then show ?thesis by (simp add: decimal_value_def)
qed

lemma decimal_all_digits: "list_all is_digit (decimal n)"
proof (induction n rule: decimal.induct)
  case (1 n)
  show ?case
  proof (cases "n < 10")
    case True
    then show ?thesis by (subst decimal.simps) (simp add: is_digit_digit_char)
  next
    case False
    then show ?thesis
      using "1.IH" by (subst decimal.simps) (simp add: is_digit_digit_char)
  qed
qed

lemma length_decimal_le: "0 < k \<Longrightarrow> n < 10 ^ k \<Longrightarrow> length (decimal n) \<le> k"
proof (induction n arbitrary: k rule: decimal.induct)
  case (1 n)
  show ?case
  proof (cases "n < 10")
    case True
    then show ?thesis using "1.prems" by (subst decimal.simps) simp
  next
    case False
    with "1.prems" obtain j where k: "k = Suc j" by (cases k) auto
    have "0 < j" using False "1.prems" k by (cases j) auto
    moreover have "n div 10 < 10 ^ j" using "1.prems" k by auto
    ultimately have "length (decimal (n div 10)) \<le> j" using False by (intro "1.IH") auto
    then show ?thesis using False k by (subst decimal.simps) simp
  qed
qed

lemma format_04d_value: "decimal_value (format_04d n) = n"
  by (simp add: format_04d_def decimal_value_zeros decimal_value_decimal)

lemma zeros_all_digits: "list_all is_digit (replicate k CHR ''0'')"
  by (induction k) (simp_all add: is_digit_def)

lemma format_04d_digits: "list_all is_digit (format_04d n)"
  unfolding format_04d_def list_all_append
  using zeros_all_digits decimal_all_digits by blast

lemma format_04d_length: "length (format_04d n) = max 4 (length (decimal n))"
  by (simp add: format_04d_def)

lemma format_04d_width: "n < 10000 \<Longrightarrow> length (format_04d n) = 4"
  using length_decimal_le [of 4 n] by (simp add: format_04d_def)

lemma decimal_1: "decimal 1 = ''1''"
  by (subst decimal.simps) (simp add: digit_char_def)

lemma decimal_2: "decimal 2 = ''2''"
  by (subst decimal.simps) (simp add: digit_char_def)

lemma format_04d_1: "format_04d 1 = ''0001''"
  unfolding format_04d_def decimal_1 by (simp add: numeral_eq_Suc)

lemma format_04d_2: "format_04d 2 = ''0002''"
  unfolding format_04d_def decimal_2 by (simp add: numeral_eq_Suc)


lemma format_04d_Suc_0: "format_04d (Suc 0) = ''0001''"
  using format_04d_1 by simp

lemma format_04d_Suc_Suc_0: "format_04d (Suc (Suc 0)) = ''0002''"
  using format_04d_2 by (simp add: numeral_2_eq_2)

lemma create_receipt_ok:
  assumes "lines_valid (ReceiptCreate.lines p)"
  shows "\<exists>a. create_receipt (Some st) p t = Inr (a, st\<lparr>receipt := receipt st @ [a]\<rparr>)
           \<and> reference a = ''WH/IN/'' @ format_04d (length (receipt st) + 1)"
  using assms by (simp add: create_receipt_def count_documents_def create_document_def Let_def)

lemma create_delivery_ok:
  assumes "lines_valid (DeliveryCreate.lines q)"
  shows "\<exists>a. create_delivery (Some st) q t = Inr (a, st\<lparr>delivery := delivery st @ [a]\<rparr>)
           \<and> reference a = ''WH/OUT/'' @ format_04d (length (delivery st) + 1)"
  using assms by (simp add: create_delivery_def count_documents_def create_document_def Let_def)

lemma two_receipts:
  assumes r1: "lines_valid (ReceiptCreate.lines p1)" and r2: "lines_valid (ReceiptCreate.lines p2)"
  shows "\<exists>a st1 b st2.
            create_receipt (Some st) p1 t1 = Inr (a, st1)
          \<and> create_receipt (Some st1) p2 t2 = Inr (b, st2)
          \<and> reference a = ''WH/IN/'' @ format_04d (length (receipt st) + 1)
          \<and> reference b = ''WH/IN/'' @ format_04d (length (receipt st) + 2)
          \<and> receipt st2 = receipt st @ [a, b]
          \<and> (receipt st = [] \<longrightarrow> reference a = ''WH/IN/0001'' \<and> reference b = ''WH/IN/0002'')"
proof -
  from create_receipt_ok [OF r1, of st t1] obtain a where
    a: "create_receipt (Some st) p1 t1 = Inr (a, st\<lparr>receipt := receipt st @ [a]\<rparr>)"
    and ra: "reference a = ''WH/IN/'' @ format_04d (length (receipt st) + 1)"
    by blast
  let ?st1 = "st\<lparr>receipt := receipt st @ [a]\<rparr>"
  from create_receipt_ok [OF r2, of ?st1 t2] obtain b where
    b: "create_receipt (Some ?st1) p2 t2 = Inr (b, ?st1\<lparr>receipt := receipt ?st1 @ [b]\<rparr>)"
    and rb: "reference b = ''WH/IN/'' @ format_04d (length (receipt ?st1) + 1)"
    by blast
  let ?st2 = "?st1\<lparr>receipt := receipt ?st1 @ [b]\<rparr>"
  have rb': "reference b = ''WH/IN/'' @ format_04d (length (receipt st) + 2)"
    using rb by simp
  have app: "receipt ?st2 = receipt st @ [a, b]" by simp
  have first: "receipt st = [] \<longrightarrow> reference a = ''WH/IN/0001'' \<and> reference b = ''WH/IN/0002''"
    using ra rb' by (simp add: format_04d_Suc_0 format_04d_Suc_Suc_0)
  show ?thesis
    using a b ra rb' app first
    by (intro exI [where x = a] exI [where x = ?st1] exI [where x = b] exI [where x = ?st2] conjI)
      assumption+
qed

lemma two_deliveries:
  assumes r1: "lines_valid (DeliveryCreate.lines q1)" and r2: "lines_valid (DeliveryCreate.lines q2)"
  shows "\<exists>a st1 b st2.
            create_delivery (Some st) q1 t1 = Inr (a, st1)
          \<and> create_delivery (Some st1) q2 t2 = Inr (b, st2)
          \<and> reference a = ''WH/OUT/'' @ format_04d (length (delivery st) + 1)
          \<and> reference b = ''WH/OUT/'' @ format_04d (length (delivery st) + 2)
          \<and> delivery st2 = delivery st @ [a, b]
          \<and> (delivery st = [] \<longrightarrow> reference a = ''WH/OUT/0001'' \<and> reference b = ''WH/OUT/0002'')"
proof -
  from create_delivery_ok [OF r1, of st t1] obtain a where
    a: "create_delivery (Some st) q1 t1 = Inr (a, st\<lparr>delivery := delivery st @ [a]\<rparr>)"
    and ra: "reference a = ''WH/OUT/'' @ format_04d (length (delivery st) + 1)"
    by blast
  let ?st1 = "st\<lparr>delivery := delivery st @ [a]\<rparr>"
  from create_delivery_ok [OF r2, of ?st1 t2] obtain b where
    b: "create_delivery (Some ?st1) q2 t2 = Inr (b, ?st1\<lparr>delivery := delivery ?st1 @ [b]\<rparr>)"
    and rb: "reference b = ''WH/OUT/'' @ format_04d (length (delivery ?st1) + 1)"
    by blast
  let ?st2 = "?st1\<lparr>delivery := delivery ?st1 @ [b]\<rparr>"
  have rb': "reference b = ''WH/OUT/'' @ format_04d (length (delivery st) + 2)"
    using rb by simp
  have app: "delivery ?st2 = delivery st @ [a, b]" by simp
  have first: "delivery st = [] \<longrightarrow> reference a = ''WH/OUT/0001'' \<and> reference b = ''WH/OUT/0002''"
    using ra rb' by (simp add: format_04d_Suc_0 format_04d_Suc_Suc_0)
  show ?thesis
    using a b ra rb' app first
    by (intro exI [where x = a] exI [where x = ?st1] exI [where x = b] exI [where x = ?st2] conjI)
      assumption+
qed

text \<open>
  Claim C9. Creating a receipt gives it the reference \<^verbatim>\<open>WH/IN/\<close> followed by the number of
  receipts already stored plus one, written by \<^verbatim>\<open>{count:04d}\<close>; a second creation right
  after gets the next number. Starting without receipts the two references are
  \<^verbatim>\<open>WH/IN/0001\<close> and \<^verbatim>\<open>WH/IN/0002\<close>. Deliveries do the same with \<^verbatim>\<open>WH/OUT/\<close>. The written
  number consists of decimal digits, reads back as the number, is at least four characters
  wide and exactly four below 10000.
\<close>

theorem sequential_references:
  assumes r1: "lines_valid (ReceiptCreate.lines p1)" and r2: "lines_valid (ReceiptCreate.lines p2)"
    and d1: "lines_valid (DeliveryCreate.lines q1)" and d2: "lines_valid (DeliveryCreate.lines q2)"
  shows "(\<exists>a st1 b st2.
            create_receipt (Some st) p1 t1 = Inr (a, st1)
          \<and> create_receipt (Some st1) p2 t2 = Inr (b, st2)
          \<and> reference a = ''WH/IN/'' @ format_04d (length (receipt st) + 1)
          \<and> reference b = ''WH/IN/'' @ format_04d (length (receipt st) + 2)
          \<and> receipt st2 = receipt st @ [a, b]
          \<and> (receipt st = [] \<longrightarrow> reference a = ''WH/IN/0001'' \<and> reference b = ''WH/IN/0002''))
       \<and> (\<exists>a st1 b st2.
            create_delivery (Some st) q1 t1 = Inr (a, st1)
          \<and> create_delivery (Some st1) q2 t2 = Inr (b, st2)
          \<and> reference a = ''WH/OUT/'' @ format_04d (length (delivery st) + 1)
          \<and> reference b = ''WH/OUT/'' @ format_04d (length (delivery st) + 2)
          \<and> delivery st2 = delivery st @ [a, b]
          \<and> (delivery st = [] \<longrightarrow> reference a = ''WH/OUT/0001'' \<and> reference b = ''WH/OUT/0002''))
       \<and> decimal_value (format_04d n) = n
       \<and> list_all is_digit (format_04d n)
       \<and> length (format_04d n) = max 4 (length (decimal n))
       \<and> (n < 10000 \<longrightarrow> length (format_04d n) = 4)"
  using two_receipts [OF r1 r2, of st t1 t2] two_deliveries [OF d1 d2, of st t1 t2]
    format_04d_value [of n] format_04d_digits [of n] format_04d_length [of n] format_04d_width [of n]
  by (intro conjI impI) assumption+

theorem sequential_references_witness:
  "lines_valid (ReceiptCreate.lines receipt_request)
   \<and> lines_valid (DeliveryCreate.lines delivery_request)
   \<and> receipt empty_store = []
   \<and> (\<exists>a st1 b st2.
          create_receipt (Some empty_store) receipt_request 7 = Inr (a, st1)
        \<and> create_receipt (Some st1) receipt_request 8 = Inr (b, st2)
        \<and> reference a = ''WH/IN/0001'' \<and> reference b = ''WH/IN/0002'')
   \<and> length (format_04d 42) = 4"
proof -
  have h1: "lines_valid (ReceiptCreate.lines receipt_request)"
    by (simp add: lines_valid_def receipt_request_def)
  have h2: "lines_valid (DeliveryCreate.lines delivery_request)"
    by (simp add: lines_valid_def delivery_request_def)
  have h3: "receipt empty_store = []" by (simp add: empty_store_def)
  note inst = sequential_references [OF h1 h1 h2 h2, of empty_store 7 8 42]
  from inst [THEN conjunct1] obtain a st1 b st2 where
    a: "create_receipt (Some empty_store) receipt_request 7 = Inr (a, st1)"
    and b: "create_receipt (Some st1) receipt_request 8 = Inr (b, st2)"
    and first: "receipt empty_store = [] \<longrightarrow> reference a = ''WH/IN/0001'' \<and> reference b = ''WH/IN/0002''"
    by blast
  from first h3 have ra: "reference a = ''WH/IN/0001''" and rb: "reference b = ''WH/IN/0002''"
    by blast+
  have ex: "\<exists>a st1 b st2.
          create_receipt (Some empty_store) receipt_request 7 = Inr (a, st1)
        \<and> create_receipt (Some st1) receipt_request 8 = Inr (b, st2)
        \<and> reference a = ''WH/IN/0001'' \<and> reference b = ''WH/IN/0002''"
    using a b ra rb by blast
  have len: "length (format_04d 42) = 4"
    using inst by simp
  from h1 h2 h3 ex len show ?thesis by (intro conjI)
qed

end
